theory Spec2Isabelle
  imports Main "HOL-Library.Sublist" "HOL-Library.Product_Lexorder"
begin

section \<open>Data model\<close>

text \<open>
  The generators build plain JavaScript objects (\<open>Record<string, any>\<close>).  An object is
  an association list in insertion order, a property value is a string, an array or a
  nested object.
\<close>

datatype json = JStr string | JArr "json list" | JObj "(string \<times> json) list"

text \<open>
  \<open>obj[k] = v\<close>: an existing property keeps its position and gets the new value, a new
  property is appended.
\<close>

fun setProp :: "(string \<times> 'v) list \<Rightarrow> string \<Rightarrow> 'v \<Rightarrow> (string \<times> 'v) list" where
  "setProp [] k v = [(k, v)]"
| "setProp ((k', v') # kvs) k v =
     (if k' = k then (k, v) # kvs else (k', v') # setProp kvs k v)"

text \<open>\<open>{...a, ...b}\<close>: the properties of \<open>b\<close> are assigned onto \<open>a\<close> one by one.\<close>

fun spread :: "(string \<times> 'v) list \<Rightarrow> (string \<times> 'v) list \<Rightarrow> (string \<times> 'v) list" where
  "spread obj [] = obj"
| "spread obj ((k, v) # kvs) = spread (setProp obj k v) kvs"

text \<open>\<open>obj[k]\<close>, with \<open>None\<close> for \<open>undefined\<close>.\<close>

definition getProp :: "(string \<times> 'v) list \<Rightarrow> string \<Rightarrow> 'v option" where
  "getProp obj k = map_of obj k"

text \<open>\<open>pkg.exports['.']\<close> of a manifest or of an entry-points object.\<close>

definition exportsDot :: "(string \<times> json) list \<Rightarrow> json option" where
  "exportsDot obj =
     (case getProp obj ''exports'' of
        Some (JObj e) \<Rightarrow> getProp e ''.''
      | _ \<Rightarrow> None)"

datatype language = TypeScript | JavaScript
datatype moduleType = ESM | CommonJS | Dual
datatype testRunner = Vitest | Jest | NoRunner

text \<open>
  \<open>ProjectConfig\<close>.  The interface in the package-manifest generator has the first seven
  fields; \<open>setupCI\<close>, \<open>setupCD\<close> and \<open>useCodecov\<close> are the further flags the workflow
  generator reads (its type declaration lives in \<open>generators/types.ts\<close>; the fields are taken
  from their uses and from the configuration objects of the workflow tests).
\<close>

record ProjectConfig =
  packageName :: string
  language :: language
  moduleType :: moduleType
  testRunner :: testRunner
  useLinting :: bool
  useChangesets :: bool
  initGit :: bool
  setupCI :: bool
  setupCD :: bool
  useCodecov :: bool

section \<open>Package manifest\<close>

subsection \<open>Entry points\<close>

definition generateEntryPoints :: "ProjectConfig \<Rightarrow> (string \<times> json) list" where
  "generateEntryPoints config =
     (let isTypeScript = (language config = TypeScript);
          entryPoints = []
      in if \<not> isTypeScript then
           (let entryPoints = setProp entryPoints ''main'' (JStr ''./src/index.js'');
                entryPoints =
                  (if moduleType config = ESM \<or> moduleType config = Dual
                   then setProp entryPoints ''module'' (JStr ''./src/index.js'')
                   else entryPoints);
                entryPoints = setProp entryPoints ''exports''
                  (JObj [(''.'', JStr ''./src/index.js'')])
            in entryPoints)
         else
           (case moduleType config of
              ESM \<Rightarrow>
                (let entryPoints = setProp entryPoints ''main'' (JStr ''./dist/index.js'');
                     entryPoints = setProp entryPoints ''types'' (JStr ''./dist/index.d.ts'');
                     entryPoints = setProp entryPoints ''exports''
                       (JObj [(''.'', JObj [(''types'', JStr ''./dist/index.d.ts''),
                                            (''import'', JStr ''./dist/index.js'')])])
                 in entryPoints)
            | CommonJS \<Rightarrow>
                (let entryPoints = setProp entryPoints ''main'' (JStr ''./dist/index.js'');
                     entryPoints = setProp entryPoints ''types'' (JStr ''./dist/index.d.ts'');
                     entryPoints = setProp entryPoints ''exports''
                       (JObj [(''.'', JObj [(''types'', JStr ''./dist/index.d.ts''),
                                            (''require'', JStr ''./dist/index.js'')])])
                 in entryPoints)
            | Dual \<Rightarrow>
                (let entryPoints = setProp entryPoints ''main'' (JStr ''./dist/index.js'');
                     entryPoints = setProp entryPoints ''module'' (JStr ''./dist/index.mjs'');
                     entryPoints = setProp entryPoints ''types'' (JStr ''./dist/index.d.ts'');
                     entryPoints = setProp entryPoints ''exports''
                       (JObj [(''.'', JObj [(''types'', JStr ''./dist/index.d.ts''),
                                            (''import'', JStr ''./dist/index.mjs''),
                                            (''require'', JStr ''./dist/index.js'')])])
                 in entryPoints)))"

subsection \<open>Scripts\<close>

text \<open>The double-quote character of the prettier globs.\<close>

definition dquote :: string where
  "dquote = [CHR 0x22]"

definition generateScripts :: "ProjectConfig \<Rightarrow> (string \<times> string) list" where
  "generateScripts config =
     (let scripts = [];
          scripts =
            (if language config = TypeScript
             then setProp (setProp scripts ''build'' ''tsup'') ''typecheck'' ''tsc --noEmit''
             else scripts);
          scripts =
            (if testRunner config = Vitest
             then setProp (setProp scripts ''test'' ''vitest run'') ''test:watch'' ''vitest''
             else if testRunner config = Jest
             then setProp (setProp scripts ''test'' ''jest'') ''test:watch'' ''jest --watch''
             else scripts);
          scripts =
            (if useLinting config then
               (let ext = (if language config = TypeScript then ''ts'' else ''js'');
                    scripts = setProp scripts ''lint'' (''eslint . --ext .'' @ ext);
                    scripts = setProp scripts ''lint:fix''
                                (''eslint . --ext .'' @ ext @ '' --fix'');
                    scripts = setProp scripts ''format''
                                (''prettier --write '' @ dquote @ ''src/**/*.{ts,js,json,md}'' @ dquote);
                    scripts = setProp scripts ''format:check''
                                (''prettier --check '' @ dquote @ ''src/**/*.{ts,js,json,md}'' @ dquote)
                in scripts)
             else scripts);
          scripts =
            (if language config = TypeScript
             then setProp scripts ''check:exports'' ''attw --pack''
             else scripts);
          scripts =
            (if language config = TypeScript
             then setProp scripts ''prepublishOnly'' ''npm run build''
             else scripts)
      in scripts)"

subsection \<open>Development dependencies\<close>

definition generateDevDependencies :: "ProjectConfig \<Rightarrow> (string \<times> string) list" where
  "generateDevDependencies config =
     (let deps = [];
          deps =
            (if language config = TypeScript then
               (let deps = setProp deps ''typescript'' ''^5.3.3'';
                    deps = setProp deps ''tsup'' ''^8.0.1'';
                    deps = setProp deps ''@types/node'' ''^20.11.0'';
                    deps = setProp deps ''@arethetypeswrong/cli'' ''^0.15.0''
                in deps)
             else deps);
          deps =
            (if testRunner config = Vitest then setProp deps ''vitest'' ''^1.2.0''
             else if testRunner config = Jest then
               (let deps = setProp deps ''jest'' ''^29.7.0''
                in if language config = TypeScript
                   then setProp (setProp deps ''ts-jest'' ''^29.1.1'') ''@types/jest'' ''^29.5.11''
                   else deps)
             else deps);
          deps =
            (if useLinting config then
               (let deps =
                      (if language config = TypeScript
                       then setProp (setProp deps ''@typescript-eslint/eslint-plugin'' ''^6.19.0'')
                              ''@typescript-eslint/parser'' ''^6.19.0''
                       else deps);
                    deps = setProp deps ''eslint'' ''^8.56.0'';
                    deps = setProp deps ''prettier'' ''^3.2.4'';
                    deps = setProp deps ''eslint-config-prettier'' ''^9.1.0''
                in deps)
             else deps);
          deps =
            (if useChangesets config then setProp deps ''@changesets/cli'' ''^2.27.1''
             else deps)
      in deps)"

subsection \<open>The manifest\<close>

definition strObj :: "(string \<times> string) list \<Rightarrow> json" where
  "strObj kvs = JObj (map (\<lambda>(k, v). (k, JStr v)) kvs)"

definition generatePackageJson :: "ProjectConfig \<Rightarrow> (string \<times> json) list" where
  "generatePackageJson config =
     (let pkg = [(''name'', JStr (packageName config)),
                 (''version'', JStr ''0.1.0''),
                 (''description'', JStr ''A new npm package''),
                 (''type'', JStr (if moduleType config = CommonJS then ''commonjs''
                                  else ''module''))];
          pkg = spread pkg (generateEntryPoints config);
          pkg = setProp pkg ''files''
                  (if language config = TypeScript then JArr [JStr ''dist'']
                   else JArr [JStr ''src'']);
          pkg = setProp pkg ''scripts'' (strObj (generateScripts config));
          pkg = setProp pkg ''keywords'' (JArr []);
          pkg = setProp pkg ''author'' (JStr []);
          pkg = setProp pkg ''license'' (JStr ''MIT'');
          pkg = setProp pkg ''devDependencies'' (strObj (generateDevDependencies config));
          pkg =
            (if useChangesets config
             then setProp pkg ''scripts''
                    (strObj (setProp (generateScripts config) ''release'' ''changeset publish''))
             else pkg)
      in pkg)"

text \<open>The \<open>baseConfig\<close> of the manifest tests, with the workflow flags of the CI tests.\<close>

definition baseConfig :: ProjectConfig where
  "baseConfig =
     \<lparr>packageName = ''test-package'', language = TypeScript, moduleType = ESM,
      testRunner = Vitest, useLinting = True, useChangesets = False, initGit = True,
      setupCI = True, setupCD = False, useCodecov = False\<rparr>"

section \<open>Strings and numbers of the version fetchers\<close>

text \<open>
  A JavaScript number is modelled as \<open>int option\<close>: \<open>Some n\<close> is the integer \<open>n\<close> and
  \<open>None\<close> is \<open>NaN\<close>.  An \<open>undefined\<close> array element is \<open>None\<close> as well: in the
  comparisons \<open><\<close>, \<open>>\<close>, \<open>>=\<close> and \<open>===\<close> against a number it behaves as \<open>NaN\<close> does, all
  of them are false.  The integers are those of the program below \<open>2^53\<close>, where a
  double is exact.
\<close>

type_synonym jsnum = "int option"

definition numLess :: "jsnum \<Rightarrow> jsnum \<Rightarrow> bool" where
  "numLess a b = (case (a, b) of (Some x, Some y) \<Rightarrow> x < y | _ \<Rightarrow> False)"

definition numGreater :: "jsnum \<Rightarrow> jsnum \<Rightarrow> bool" where
  "numGreater a b = (case (a, b) of (Some x, Some y) \<Rightarrow> x > y | _ \<Rightarrow> False)"

definition numGreaterEq :: "jsnum \<Rightarrow> jsnum \<Rightarrow> bool" where
  "numGreaterEq a b = (case (a, b) of (Some x, Some y) \<Rightarrow> x \<ge> y | _ \<Rightarrow> False)"

definition numStrictEq :: "jsnum \<Rightarrow> jsnum \<Rightarrow> bool" where
  "numStrictEq a b = (case (a, b) of (Some x, Some y) \<Rightarrow> x = y | _ \<Rightarrow> False)"

definition numMinus :: "jsnum \<Rightarrow> jsnum \<Rightarrow> jsnum" where
  "numMinus a b = (case (a, b) of (Some x, Some y) \<Rightarrow> Some (x - y) | _ \<Rightarrow> None)"

text \<open>\<open>Math.floor(a / d)\<close> for a positive integer \<open>d\<close>: integer division rounds down.\<close>

definition floorDiv :: "jsnum \<Rightarrow> int \<Rightarrow> jsnum" where
  "floorDiv a d = (case a of Some x \<Rightarrow> Some (x div d) | None \<Rightarrow> None)"

definition isDigit :: "char \<Rightarrow> bool" where
  "isDigit c = (c \<in> set ''0123456789'')"

definition isDigits :: "string \<Rightarrow> bool" where
  "isDigits s = (s \<noteq> [] \<and> list_all isDigit s)"

definition digitVal :: "char \<Rightarrow> nat" where
  "digitVal c = (of_char c - 48)"

definition parseDigits :: "string \<Rightarrow> nat" where
  "parseDigits s = foldl (\<lambda>acc c. 10 * acc + digitVal c) 0 s"

text \<open>
  \<open>Number(s)\<close> on the dot-separated components of a version.  It is the program's value
  for the empty string (zero) and for a string of decimal digits whose value is below
  \<open>2^53\<close>; above that bound the program rounds to the nearest double, and it also reads
  signs, exponents, radix prefixes and surrounding white space, which this function maps to
  \<open>NaN\<close>.  The properties below that depend on the numeric value are therefore stated for
  versions with decimal components below \<open>2^53\<close>, and carry that bound as a hypothesis.
\<close>

definition toNumber :: "string \<Rightarrow> jsnum" where
  "toNumber s = (if s = [] then Some 0
                 else if list_all isDigit s then Some (int (parseDigits s))
                 else None)"

definition digitChar :: "nat \<Rightarrow> char" where
  "digitChar d = ''0123456789'' ! d"

text \<open>\<open>String(n)\<close> for an integer.\<close>

fun showNat :: "nat \<Rightarrow> string" where
  "showNat n = (if n < 10 then [digitChar n] else showNat (n div 10) @ [digitChar (n mod 10)])"

declare showNat.simps [simp del]

definition showInt :: "int \<Rightarrow> string" where
  "showInt i = (if i < 0 then ''-'' @ showNat (nat (- i)) else showNat (nat i))"

definition showNum :: "jsnum \<Rightarrow> string" where
  "showNum a = (case a of Some i \<Rightarrow> showInt i | None \<Rightarrow> ''NaN'')"

text \<open>
  \<open>s.split(sep)\<close> for a one-character separator.  The result is never empty: the empty
  string splits into one empty string.
\<close>

fun splitStr :: "char \<Rightarrow> string \<Rightarrow> string list" where
  "splitStr sep [] = [[]]"
| "splitStr sep (c # cs) =
     (if c = sep then [] # splitStr sep cs
      else (case splitStr sep cs of
              [] \<Rightarrow> [[c]]
            | w # ws \<Rightarrow> (c # w) # ws))"

text \<open>\<open>xs[i]\<close> of an array of numbers, \<open>undefined\<close> out of range.\<close>

definition numAt :: "jsnum list \<Rightarrow> nat \<Rightarrow> jsnum" where
  "numAt xs i = (if i < length xs then xs ! i else None)"

text \<open>\<open>xs.join(sep)\<close>.\<close>

fun join :: "string \<Rightarrow> string list \<Rightarrow> string" where
  "join sep [] = []"
| "join sep [x] = x"
| "join sep (x # y # ys) = x @ sep @ join sep (y # ys)"

text \<open>
  \<open>xs.sort(cmp)\<close>: a stable sort, ascending for the comparator (\<open>cmp a b > 0\<close> puts \<open>a\<close>
  after \<open>b\<close>).  ECMAScript fixes the result for a consistent comparator to this one.
\<close>

fun insertBy :: "('a \<Rightarrow> 'a \<Rightarrow> int) \<Rightarrow> 'a \<Rightarrow> 'a list \<Rightarrow> 'a list" where
  "insertBy cmp x [] = [x]"
| "insertBy cmp x (y # ys) = (if cmp x y \<le> 0 then x # y # ys else y # insertBy cmp x ys)"

definition sortBy :: "('a \<Rightarrow> 'a \<Rightarrow> int) \<Rightarrow> 'a list \<Rightarrow> 'a list" where
  "sortBy cmp xs = foldr (insertBy cmp) xs []"

text \<open>The UTF-8 bytes of the warning sign and of the information sign of the messages.\<close>

definition warnSign :: string where
  "warnSign = [CHR 0xE2, CHR 0x9A, CHR 0xA0, CHR 0xEF, CHR 0xB8, CHR 0x8F]"

definition infoSign :: string where
  "infoSign = [CHR 0xE2, CHR 0x84, CHR 0xB9, CHR 0xEF, CHR 0xB8, CHR 0x8F]"

definition newline :: string where
  "newline = [CHR 0x0A]"

definition squote :: string where
  "squote = [CHR 0x27]"

section \<open>Package version fetcher\<close>

record VersionResult =
  version :: string
  warning :: "string option"
  usedFallback :: "bool option"

text \<open>
  Registry metadata, \<open>NpmPackageData\<close>, as read after \<open>response.json()\<close>.
  \<open>pkg_version\<close> is \<open>None\<close> when the property is missing or not a string;
  \<open>pkg_versions\<close> is \<open>Object.keys(data.versions || {})\<close>; \<open>pkg_time\<close> maps a version
  to the parsed time stamp (milliseconds, \<open>NaN\<close> for an invalid date) of a non-empty entry
  of \<open>data.time\<close>, and is empty when \<open>data.time\<close> is missing.
\<close>

record NpmPackageData =
  pkg_version :: "string option"
  pkg_time :: "string \<rightharpoonup> jsnum"
  pkg_versions :: "string list"

text \<open>
  The outcome of \<open>fetch\<close>: the promise rejects (network error, or the 5 s
  \<open>AbortSignal.timeout\<close>), or resolves to a response with a status and a body; the body is
  \<open>None\<close> when \<open>response.json()\<close> rejects or yields no object to read properties from.
\<close>

datatype 'a fetched = Rejected | Response nat "'a option"

datatype exn = FetchError | HttpError nat | JsonError | TypeError | NoStableVersions
  | NoActiveLTS

definition fetchJson :: "'a fetched \<Rightarrow> exn + 'a" where
  "fetchJson r =
     (case r of
        Rejected \<Rightarrow> Inl FetchError
      | Response status body \<Rightarrow>
          if \<not> (200 \<le> status \<and> status \<le> 299) then Inl (HttpError status)
          else (case body of None \<Rightarrow> Inl JsonError | Some d \<Rightarrow> Inr d))"

text \<open>\<open>try { body } catch { handler }\<close>.\<close>

definition tryCatch :: "exn + 'a \<Rightarrow> exn + 'a \<Rightarrow> exn + 'a" where
  "tryCatch body handler = (case body of Inl e \<Rightarrow> handler | Inr r \<Rightarrow> Inr r)"

subsection \<open>compareVersions\<close>

fun compareParts :: "jsnum list \<Rightarrow> jsnum list \<Rightarrow> nat list \<Rightarrow> int" where
  "compareParts aParts bParts [] = 0"
| "compareParts aParts bParts (i # rest) =
     (if numGreater (numAt aParts i) (numAt bParts i) then 1
      else if numLess (numAt aParts i) (numAt bParts i) then - 1
      else compareParts aParts bParts rest)"

definition compareVersions :: "string \<Rightarrow> string \<Rightarrow> int" where
  "compareVersions a b =
     (let aParts = map toNumber (splitStr (CHR ''.'') a);
          bParts = map toNumber (splitStr (CHR ''.'') b)
      in compareParts aParts bParts [0, 1, 2])"

subsection \<open>generateWarning\<close>

definition daysText :: "jsnum \<Rightarrow> string" where
  "daysText daysOld =
     showNum daysOld @ '' day'' @ (if numStrictEq daysOld (Some 1) then [] else ''s'') @ '' old''"

definition generateWarning :: "string \<Rightarrow> string \<Rightarrow> jsnum \<Rightarrow> string option" where
  "generateWarning pkg ver daysOld =
     (let parts = map toNumber (splitStr (CHR ''.'') ver);
          major = numAt parts 0;
          minor = numAt parts 1
      in if numStrictEq minor (Some 0) \<and> numLess daysOld (Some 30) then
           (let prevMajor = numMinus major (Some 1)
            in Some (warnSign @ ''  '' @ pkg @ ''@'' @ ver @ '' ('' @ daysText daysOld @ '')''
                     @ newline
                     @ ''   New major version - may contain breaking changes.'' @ newline
                     @ ''   If issues occur, downgrade: npm install '' @ pkg @ ''@''
                     @ showNum prevMajor))
         else if numStrictEq minor (Some 1) \<and> numLess daysOld (Some 14) then
           Some (warnSign @ ''  '' @ pkg @ ''@'' @ ver @ '' ('' @ daysText daysOld @ '')''
                 @ newline
                 @ ''   Recently released - may have early bugs.'')
         else None)"

subsection \<open>getStableFallbackVersion\<close>

text \<open>
  The pattern of the second filter: three dot-separated runs of decimal digits, anchored
  at both ends.
\<close>

definition matchesSemver :: "string \<Rightarrow> bool" where
  "matchesSemver v =
     (case splitStr (CHR ''.'') v of
        [a, b, c] \<Rightarrow> isDigits a \<and> isDigits b \<and> isDigits c
      | _ \<Rightarrow> False)"

text \<open>A version that passes both filters: it has no hyphen, and it matches the pattern.\<close>

definition isStableVersion :: "string \<Rightarrow> bool" where
  "isStableVersion v = (CHR ''-'' \<notin> set v \<and> matchesSemver v)"

text \<open>
  \<open>Math.floor((Date.now() - publishedAt.getTime()) / (1000 * 60 * 60 * 24))\<close> with
  \<open>publishedAt = new Date(data.time?.[version] || Date.now())\<close>.
\<close>

definition msPerDay :: int where
  "msPerDay = 1000 * 60 * 60 * 24"

definition daysOldOf :: "int \<Rightarrow> (string \<rightharpoonup> jsnum) \<Rightarrow> string \<Rightarrow> jsnum" where
  "daysOldOf now time ver =
     (let publishedAt = (case time ver of Some t \<Rightarrow> t | None \<Rightarrow> Some now)
      in floorDiv (numMinus (Some now) publishedAt) msPerDay)"

text \<open>The loop over the sorted stable versions, with its early return.\<close>

fun firstOldEnough :: "string \<Rightarrow> int \<Rightarrow> (string \<rightharpoonup> jsnum) \<Rightarrow> string list
    \<Rightarrow> VersionResult option" where
  "firstOldEnough pkgName now time [] = None"
| "firstOldEnough pkgName now time (ver # rest) =
     (let daysOld = daysOldOf now time ver
      in if numGreaterEq daysOld (Some 30) then
           Some \<lparr>version = ''^'' @ ver,
                 warning = Some (infoSign @ ''  Using stable fallback: '' @ pkgName @ ''@''
                                 @ ver @ '' ('' @ showNum daysOld @ '' days old)''),
                 usedFallback = Some True\<rparr>
         else firstOldEnough pkgName now time rest)"

definition stableVersionsOf :: "string list \<Rightarrow> string list" where
  "stableVersionsOf allVersions =
     rev (sortBy compareVersions
            (filter matchesSemver (filter (\<lambda>v. CHR ''-'' \<notin> set v) allVersions)))"

definition stableFallbackBody :: "string \<Rightarrow> int \<Rightarrow> NpmPackageData fetched
    \<Rightarrow> exn + VersionResult" where
  "stableFallbackBody pkgName now response =
     (case fetchJson response of
        Inl e \<Rightarrow> Inl e
      | Inr data \<Rightarrow>
          (let stableVersions = stableVersionsOf (pkg_versions data)
           in case stableVersions of
                [] \<Rightarrow> Inl NoStableVersions
              | latestStable # _ \<Rightarrow>
                  (case firstOldEnough pkgName now (pkg_time data) stableVersions of
                     Some r \<Rightarrow> Inr r
                   | None \<Rightarrow>
                       Inr \<lparr>version = ''^'' @ latestStable,
                            warning = Some (infoSign @ ''  Using fallback: '' @ pkgName
                                            @ ''@'' @ latestStable),
                            usedFallback = Some True\<rparr>)))"

definition getStableFallbackVersion :: "string \<Rightarrow> int \<Rightarrow> NpmPackageData fetched
    \<Rightarrow> exn + VersionResult" where
  "getStableFallbackVersion pkgName now response =
     tryCatch (stableFallbackBody pkgName now response)
       (Inr \<lparr>version = ''latest'',
             warning = Some (warnSign @ ''  Could not fetch '' @ pkgName
                             @ '' versions, using '' @ dquote @ ''latest'' @ dquote),
             usedFallback = Some True\<rparr>)"

subsection \<open>getLatestVersionWithFallback\<close>

text \<open>
  \<open>latestResponse\<close> answers the query for \<open>/<package>/latest\<close>, \<open>fullResponse\<close> the query
  for the whole package document, which is only made when the first attempt has thrown.
\<close>

definition latestBody :: "string \<Rightarrow> int \<Rightarrow> NpmPackageData fetched \<Rightarrow> exn + VersionResult" where
  "latestBody pkgName now latestResponse =
     (case fetchJson latestResponse of
        Inl e \<Rightarrow> Inl e
      | Inr data \<Rightarrow>
          (case pkg_version data of
             None \<Rightarrow> Inl TypeError
           | Some ver \<Rightarrow>
               (let daysOld = daysOldOf now (pkg_time data) ver;
                    warn = generateWarning pkgName ver daysOld
                in Inr \<lparr>version = ''^'' @ ver, warning = warn, usedFallback = None\<rparr>)))"

definition getLatestVersionWithFallback :: "string \<Rightarrow> int \<Rightarrow> NpmPackageData fetched
    \<Rightarrow> NpmPackageData fetched \<Rightarrow> exn + VersionResult" where
  "getLatestVersionWithFallback pkgName now latestResponse fullResponse =
     tryCatch (latestBody pkgName now latestResponse)
       (getStableFallbackVersion pkgName now fullResponse)"

section \<open>Node.js LTS fetcher\<close>

record NodeVersionConfig =
  minimum :: int
  engines :: string
  ciMatrix :: "int list"
  latestLTS :: int

text \<open>
  An entry of the distribution index, \<open>NodeDistVersion\<close>; \<open>lts\<close> is \<open>None\<close> for
  \<open>false\<close> and the codename otherwise.
\<close>

record NodeDistVersion =
  dist_version :: string
  dist_date :: string
  lts :: "string option"

definition FALLBACK_NODE_CONFIG :: NodeVersionConfig where
  "FALLBACK_NODE_CONFIG =
     \<lparr>minimum = 20, engines = ''>=20.0.0'', ciMatrix = [20, 22], latestLTS = 22\<rparr>"

text \<open>
  The table of end-of-life dates, each as the \<open>getTime()\<close> of its date: midnight UTC of
  2023-09-11, 2025-04-30, 2026-04-30, 2027-04-30, 2028-04-30 and 2029-04-30, that is day
  19611, 20208, 20573, 20938, 21304 and 21669 after the epoch.
\<close>

definition EOL_DATES :: "(int \<times> int) list" where
  "EOL_DATES =
     [(16, 19611 * msPerDay),
      (18, 20208 * msPerDay),
      (20, 20573 * msPerDay),
      (22, 20938 * msPerDay),
      (24, 21304 * msPerDay),
      (26, 21669 * msPerDay)]"

definition isPastEOL :: "int \<Rightarrow> int \<Rightarrow> bool" where
  "isPastEOL now majorVersion =
     (case map_of EOL_DATES majorVersion of
        None \<Rightarrow> False
      | Some eolDate \<Rightarrow> now > eolDate)"

text \<open>
  \<open>parseInt(v.version.match(/^v(\d+)/)?.[1] || '0')\<close>: the digits after a leading \<open>v\<close>, and
  zero when the tag does not start with \<open>v\<close> and a digit.
\<close>

definition nodeMajor :: "string \<Rightarrow> int" where
  "nodeMajor tag =
     (case tag of
        [] \<Rightarrow> 0
      | c # rest \<Rightarrow>
          if c = CHR ''v'' \<and> takeWhile isDigit rest \<noteq> []
          then int (parseDigits (takeWhile isDigit rest))
          else 0)"

text \<open>\<open>arr.indexOf(v)\<close>, and \<open>arr.filter((v, i, arr) => arr.indexOf(v) === i)\<close>.\<close>

fun indexOf :: "'a list \<Rightarrow> 'a \<Rightarrow> int" where
  "indexOf [] v = - 1"
| "indexOf (x # xs) v =
     (if x = v then 0
      else (let i = indexOf xs v in if i < 0 then - 1 else i + 1))"

definition uniqueFirst :: "'a list \<Rightarrow> 'a list" where
  "uniqueFirst arr = map snd (filter (\<lambda>(i, v). indexOf arr v = int i) (enumerate 0 arr))"

definition activeLTSMajors :: "int \<Rightarrow> NodeDistVersion list \<Rightarrow> int list" where
  "activeLTSMajors now versions =
     sortBy (\<lambda>a b. b - a)
       (uniqueFirst
         (filter (\<lambda>v. v > 0 \<and> \<not> isPastEOL now v)
           (map (\<lambda>v. nodeMajor (dist_version v))
             (filter (\<lambda>v. lts v \<noteq> None) versions))))"

definition nodeLTSBody :: "int \<Rightarrow> NodeDistVersion list fetched \<Rightarrow> exn + NodeVersionConfig" where
  "nodeLTSBody now response =
     (case fetchJson response of
        Inl e \<Rightarrow> Inl e
      | Inr versions \<Rightarrow>
          (let ltsVersions = activeLTSMajors now versions
           in case ltsVersions of
                [] \<Rightarrow> Inl NoActiveLTS
              | latest # _ \<Rightarrow>
                  (let matrix = take 2 ltsVersions;
                       oldest = (if length matrix \<ge> 2 then matrix ! 1 else latest)
                   in Inr \<lparr>minimum = oldest,
                           engines = ''>='' @ showInt oldest @ ''.0.0'',
                           ciMatrix = matrix,
                           latestLTS = latest\<rparr>)))"

definition getNodeLTSVersions :: "int \<Rightarrow> NodeDistVersion list fetched
    \<Rightarrow> exn + NodeVersionConfig" where
  "getNodeLTSVersions now response =
     tryCatch (nodeLTSBody now response) (Inr FALLBACK_NODE_CONFIG)"

section \<open>CI workflow generator\<close>

text \<open>\<open>actionVersions.get(key)?.version || fallback\<close>.\<close>

definition actionVersionOr :: "(string \<rightharpoonup> VersionResult) \<Rightarrow> string \<Rightarrow> string \<Rightarrow> string" where
  "actionVersionOr actionVersions key fallback =
     (case actionVersions key of
        None \<Rightarrow> fallback
      | Some r \<Rightarrow> if version r = [] then fallback else version r)"

text \<open>A template literal that spans several lines.\<close>

definition lines :: "string list \<Rightarrow> string" where
  "lines ls = join newline ls"

definition checkoutStep :: "string \<Rightarrow> string" where
  "checkoutStep checkoutVersion =
     lines [''      - name: Checkout code'',
            ''        uses: actions/checkout@'' @ checkoutVersion]"

definition setupNodeStep :: "string \<Rightarrow> string" where
  "setupNodeStep setupNodeVersion =
     lines [''      - name: Setup Node.js ${{ matrix.node-version }}'',
            ''        uses: actions/setup-node@'' @ setupNodeVersion,
            ''        with:'',
            ''          node-version: ${{ matrix.node-version }}'']"

definition installStep :: string where
  "installStep =
     lines [''      - name: Install dependencies'',
            ''        run: npm install'']"

definition typecheckStep :: string where
  "typecheckStep =
     lines [''      - name: Type check'',
            ''        run: npm run typecheck'']"

definition lintStep :: string where
  "lintStep =
     lines [''      - name: Lint'',
            ''        run: npm run lint'']"

definition testStep :: "string \<Rightarrow> string" where
  "testStep testCommand =
     lines [''      - name: Run tests'',
            ''        run: '' @ testCommand]"

definition buildStep :: string where
  "buildStep =
     lines [''      - name: Build'',
            ''        run: npm run build'']"

definition codecovStep :: "int \<Rightarrow> string \<Rightarrow> string" where
  "codecovStep latest codecovVersion =
     lines [''      - name: Upload coverage to Codecov'',
            ''        if: matrix.node-version == '' @ squote @ showInt latest @ squote,
            ''        uses: codecov/codecov-action@'' @ codecovVersion,
            ''        continue-on-error: true'',
            ''        with:'',
            ''          token: ${{ secrets.CODECOV_TOKEN }}'',
            ''          fail_ci_if_error: false'']"

text \<open>The \<open>steps\<close> array as it stands before it is joined into the document.\<close>

definition ciSteps :: "ProjectConfig \<Rightarrow> NodeVersionConfig \<Rightarrow> (string \<rightharpoonup> VersionResult)
    \<Rightarrow> string list" where
  "ciSteps config nodeConfig actionVersions =
     (let checkoutVersion = actionVersionOr actionVersions ''actions/checkout'' ''v4'';
          setupNodeVersion = actionVersionOr actionVersions ''actions/setup-node'' ''v4'';
          codecovVersion = actionVersionOr actionVersions ''codecov/codecov-action'' ''v4'';
          steps = [checkoutStep checkoutVersion, setupNodeStep setupNodeVersion, installStep];
          steps = (if language config = TypeScript then steps @ [typecheckStep] else steps);
          steps = (if useLinting config then steps @ [lintStep] else steps);
          steps =
            (if testRunner config \<noteq> NoRunner then
               (let testCommand = (if setupCI config then ''npm run test:coverage''
                                   else ''npm test'')
                in steps @ [testStep testCommand])
             else steps);
          steps = steps @ [buildStep];
          steps =
            (if testRunner config \<noteq> NoRunner \<and> useCodecov config
             then steps @ [codecovStep (latestLTS nodeConfig) codecovVersion]
             else steps)
      in steps)"

definition generateCIWorkflow :: "ProjectConfig \<Rightarrow> NodeVersionConfig
    \<Rightarrow> (string \<rightharpoonup> VersionResult) \<Rightarrow> string" where
  "generateCIWorkflow config nodeConfig actionVersions =
     (let nodeVersions = map showInt (ciMatrix nodeConfig);
          steps = ciSteps config nodeConfig actionVersions
      in lines [''name: CI'',
                '''',
                ''on:'',
                ''  push:'',
                ''    branches: [main]'',
                ''  pull_request:'',
                ''    branches: [main]'',
                '''',
                ''jobs:'',
                ''  test:'',
                ''    runs-on: ubuntu-latest'',
                ''    strategy:'',
                ''      matrix:'',
                ''        node-version: ['' @ join '', '' nodeVersions @ '']'',
                ''    steps:'',
                join (newline @ newline) steps,
                ''''])"


text \<open>The node configuration and the action versions of the workflow tests.\<close>

definition mockNodeConfig :: NodeVersionConfig where
  "mockNodeConfig =
     \<lparr>minimum = 20, engines = ''>=20.0.0'', ciMatrix = [20, 22], latestLTS = 22\<rparr>"

definition mockActionVersions :: "string \<rightharpoonup> VersionResult" where
  "mockActionVersions =
     [''actions/checkout'' \<mapsto> \<lparr>version = ''v5'', warning = None, usedFallback = None\<rparr>,
      ''actions/setup-node'' \<mapsto> \<lparr>version = ''v6'', warning = None, usedFallback = None\<rparr>,
      ''codecov/codecov-action'' \<mapsto> \<lparr>version = ''v5'', warning = None, usedFallback = None\<rparr>]"
text \<open>
  A distribution index for the examples: LTS lines 16, 18, 20 and 22 (22 twice), the non-LTS
  line 23 and an entry without a readable tag; and a clock at day 19723 after the epoch
  (2024-01-01), when only line 16 of the table is past its end of life.
\<close>

definition sampleIndex :: "NodeDistVersion list" where
  "sampleIndex =
     [\<lparr>dist_version = ''v23.1.0'', dist_date = ''2024-10-24'', lts = None\<rparr>,
      \<lparr>dist_version = ''v22.11.0'', dist_date = ''2024-10-29'', lts = Some ''Jod''\<rparr>,
      \<lparr>dist_version = ''v18.20.4'', dist_date = ''2024-07-08'', lts = Some ''Hydrogen''\<rparr>,
      \<lparr>dist_version = ''v20.18.0'', dist_date = ''2024-10-03'', lts = Some ''Iron''\<rparr>,
      \<lparr>dist_version = ''v22.12.0'', dist_date = ''2024-12-03'', lts = Some ''Jod''\<rparr>,
      \<lparr>dist_version = ''v16.20.2'', dist_date = ''2023-08-08'', lts = Some ''Gallium''\<rparr>,
      \<lparr>dist_version = ''latest'', dist_date = '''', lts = Some ''Unknown''\<rparr>]"

definition sampleNow :: int where
  "sampleNow = 19723 * msPerDay"

section \<open>Notions of the specification\<close>

text \<open>
  A caret range on a plain version, \<open>^x.y.z\<close>: the pattern that the fetcher tests use for
  a resolved version.
\<close>

definition isCaretSemver :: "string \<Rightarrow> bool" where
  "isCaretSemver v = (case v of [] \<Rightarrow> False | c # s \<Rightarrow> c = CHR ''^'' \<and> matchesSemver s)"

text \<open>
  The version string with major \<open>M\<close> and minor \<open>m\<close>; \<open>rest\<close> is what follows the second
  dot (the patch number and any tags).
\<close>

definition versionString :: "nat \<Rightarrow> nat \<Rightarrow> string \<Rightarrow> string" where
  "versionString M m rest = showNat M @ ''.'' @ showNat m @ ''.'' @ rest"

text \<open>
  Major, minor and patch of a plain version as numbers; triples are compared
  lexicographically, the major first.
\<close>

definition versionTriple :: "string \<Rightarrow> nat \<times> nat \<times> nat" where
  "versionTriple v =
     (case map parseDigits (splitStr (CHR ''.'') v) of
        [a, b, c] \<Rightarrow> (a, b, c)
      | _ \<Rightarrow> (0, 0, 0))"

text \<open>The test of the loop of the first fallback: the version is at least 30 days old.\<close>

definition oldEnough :: "int \<Rightarrow> (string \<rightharpoonup> jsnum) \<Rightarrow> string \<Rightarrow> bool" where
  "oldEnough now time ver = numGreaterEq (daysOldOf now time ver) (Some 30)"
text \<open>
  A package document for the examples, read at \<open>sampleNow\<close>: \<open>1.9.0\<close> is 100 days old,
  \<open>1.10.0\<close> 40 days, \<open>2.0.0\<close> 5 days; there are a pre-release and a two-component version
  as well.  \<open>freshRegistry\<close> holds the same versions, all published 3 days ago.
\<close>

definition sampleVersions :: "string list" where
  "sampleVersions = [''1.9.0'', ''1.10.0'', ''2.0.0-beta.1'', ''2.0.0'', ''1.2'']"

definition sampleRegistry :: NpmPackageData where
  "sampleRegistry =
     \<lparr>pkg_version = Some ''2.0.0'',
      pkg_time = [''1.9.0'' \<mapsto> Some (sampleNow - 100 * msPerDay),
                  ''1.10.0'' \<mapsto> Some (sampleNow - 40 * msPerDay),
                  ''2.0.0-beta.1'' \<mapsto> Some (sampleNow - 60 * msPerDay),
                  ''2.0.0'' \<mapsto> Some (sampleNow - 5 * msPerDay)],
      pkg_versions = sampleVersions\<rparr>"

definition freshRegistry :: NpmPackageData where
  "freshRegistry =
     \<lparr>pkg_version = Some ''2.0.0'',
      pkg_time = (\<lambda>v. Some (Some (sampleNow - 3 * msPerDay))),
      pkg_versions = sampleVersions\<rparr>"

text \<open>
  The range on which the numbers of this model are those of the program: a double holds
  every integer below \<open>2^53\<close> exactly.  \<open>exactVersions\<close> says that the components of
  every stable version of a list are below that bound, \<open>exactAge\<close> that the distance between
  the clock and the publish time of a version is.
\<close>

definition exactVersion :: "string \<Rightarrow> bool" where
  "exactVersion v =
     (case versionTriple v of (a, b, c) \<Rightarrow> a < 2 ^ 53 \<and> b < 2 ^ 53 \<and> c < 2 ^ 53)"

definition exactVersions :: "string list \<Rightarrow> bool" where
  "exactVersions vs = list_all (\<lambda>v. isStableVersion v \<longrightarrow> exactVersion v) vs"

definition exactAge :: "int \<Rightarrow> (string \<rightharpoonup> jsnum) \<Rightarrow> string \<Rightarrow> bool" where
  "exactAge now time ver =
     (case time ver of Some (Some t) \<Rightarrow> abs (now - t) < 2 ^ 53 | _ \<Rightarrow> True)"

definition exactAges :: "int \<Rightarrow> (string \<rightharpoonup> jsnum) \<Rightarrow> string list \<Rightarrow> bool" where
  "exactAges now time vs = list_all (exactAge now time) vs"

text \<open>
  A document of the \<open>latest\<close> query for the examples: the version \<open>ver\<close>, published
  \<open>days\<close> days before \<open>sampleNow\<close>.
\<close>

definition publishedDaysAgo :: "string \<Rightarrow> int \<Rightarrow> NpmPackageData" where
  "publishedDaysAgo ver days =
     \<lparr>pkg_version = Some ver,
      pkg_time = [ver \<mapsto> Some (sampleNow - days * msPerDay)],
      pkg_versions = []\<rparr>"



text \<open>
  Resolved versions as the version fetcher returns them, for the example of the development
  dependencies.
\<close>

definition sampleResolved :: "string \<rightharpoonup> VersionResult" where
  "sampleResolved =
     [''typescript'' \<mapsto> \<lparr>version = ''^5.9.3'', warning = None, usedFallback = None\<rparr>,
      ''vitest'' \<mapsto> \<lparr>version = ''latest'',
                        warning = Some (warnSign @ ''  Could not fetch vitest versions, using ''
                                        @ dquote @ ''latest'' @ dquote),
                        usedFallback = Some True\<rparr>]"

section \<open>Verified properties\<close>

subsection \<open>Entry points of the manifest\<close>

text \<open>
  C1.  For each of the six pairs of language and module type, \<open>generateEntryPoints\<close>
  returns an object whose \<open>exports['.']\<close> is defined and has exactly the expected keys:
  \<open>types\<close> and \<open>import\<close> (no \<open>require\<close>) for TypeScript with ESM, \<open>types\<close> and
  \<open>require\<close> (no \<open>import\<close>) for TypeScript with CommonJS, all three for TypeScript with the
  dual format, and the plain string \<open>./src/index.js\<close> for JavaScript with any module type.
\<close>

theorem entry_points_exports_shape:
  "(language c = TypeScript \<and> moduleType c = ESM \<longrightarrow>
      (\<exists>kvs. exportsDot (generateEntryPoints c) = Some (JObj kvs)
           \<and> set (map fst kvs) = {''types'', ''import''}
           \<and> ''require'' \<notin> set (map fst kvs)))
 \<and> (language c = TypeScript \<and> moduleType c = CommonJS \<longrightarrow>
      (\<exists>kvs. exportsDot (generateEntryPoints c) = Some (JObj kvs)
           \<and> set (map fst kvs) = {''types'', ''require''}
           \<and> ''import'' \<notin> set (map fst kvs)))
 \<and> (language c = TypeScript \<and> moduleType c = Dual \<longrightarrow>
      (\<exists>kvs. exportsDot (generateEntryPoints c) = Some (JObj kvs)
           \<and> set (map fst kvs) = {''types'', ''import'', ''require''}))
 \<and> (language c = JavaScript \<longrightarrow>
      exportsDot (generateEntryPoints c) = Some (JStr ''./src/index.js''))
 \<and> exportsDot (generateEntryPoints c) \<noteq> None"
  by (cases "language c"; cases "moduleType c")
     (simp_all add: generateEntryPoints_def exportsDot_def getProp_def)

theorem entry_points_exports_shape_witness:
  "(\<exists>kvs. exportsDot (generateEntryPoints baseConfig) = Some (JObj kvs)
        \<and> set (map fst kvs) = {''types'', ''import''}
        \<and> ''require'' \<notin> set (map fst kvs))
 \<and> (\<exists>kvs. exportsDot (generateEntryPoints (baseConfig\<lparr>moduleType := CommonJS\<rparr>))
               = Some (JObj kvs)
        \<and> set (map fst kvs) = {''types'', ''require''}
        \<and> ''import'' \<notin> set (map fst kvs))
 \<and> (\<exists>kvs. exportsDot (generateEntryPoints (baseConfig\<lparr>moduleType := Dual\<rparr>))
               = Some (JObj kvs)
        \<and> set (map fst kvs) = {''types'', ''import'', ''require''})
 \<and> exportsDot (generateEntryPoints (baseConfig\<lparr>language := JavaScript\<rparr>))
      = Some (JStr ''./src/index.js'')
 \<and> exportsDot (generateEntryPoints
                  (baseConfig\<lparr>language := JavaScript, moduleType := CommonJS\<rparr>))
      = Some (JStr ''./src/index.js'')
 \<and> exportsDot (generateEntryPoints
                  (baseConfig\<lparr>language := JavaScript, moduleType := Dual\<rparr>))
      = Some (JStr ''./src/index.js'')"
  using entry_points_exports_shape [of baseConfig]
        entry_points_exports_shape [of "baseConfig\<lparr>moduleType := CommonJS\<rparr>"]
        entry_points_exports_shape [of "baseConfig\<lparr>moduleType := Dual\<rparr>"]
        entry_points_exports_shape [of "baseConfig\<lparr>language := JavaScript\<rparr>"]
        entry_points_exports_shape
          [of "baseConfig\<lparr>language := JavaScript, moduleType := CommonJS\<rparr>"]
        entry_points_exports_shape
          [of "baseConfig\<lparr>language := JavaScript, moduleType := Dual\<rparr>"]
  by (simp add: baseConfig_def)

text \<open>
  C2.  In the manifest of a TypeScript project with the dual format, \<open>exports['.'].import\<close>
  ends in \<open>.mjs\<close> and \<open>exports['.'].require\<close> ends in \<open>.js\<close>, and neither has the
  other's extension.  In every manifest the \<open>type\<close> field is \<open>module\<close> for ESM and for the
  dual format, and it is \<open>commonjs\<close> exactly when the module type is CommonJS.
\<close>

theorem dual_extensions_and_type_field:
  "(language c = TypeScript \<and> moduleType c = Dual \<longrightarrow>
     (\<exists>kvs i r. exportsDot (generatePackageJson c) = Some (JObj kvs)
        \<and> getProp kvs ''import'' = Some (JStr i) \<and> getProp kvs ''require'' = Some (JStr r)
        \<and> suffix ''.mjs'' i \<and> suffix ''.js'' r
        \<and> \<not> suffix ''.js'' i \<and> \<not> suffix ''.mjs'' r))
 \<and> (moduleType c = ESM \<or> moduleType c = Dual \<longrightarrow>
       getProp (generatePackageJson c) ''type'' = Some (JStr ''module''))
 \<and> (getProp (generatePackageJson c) ''type'' = Some (JStr ''commonjs'')
       \<longleftrightarrow> moduleType c = CommonJS)"
  by (cases "language c"; cases "moduleType c")
     (simp_all add: generatePackageJson_def generateEntryPoints_def exportsDot_def getProp_def
        Let_def suffix_to_prefix)

theorem dual_extensions_and_type_field_witness:
  "(\<exists>kvs i r. exportsDot (generatePackageJson (baseConfig\<lparr>moduleType := Dual\<rparr>))
             = Some (JObj kvs)
        \<and> getProp kvs ''import'' = Some (JStr i) \<and> getProp kvs ''require'' = Some (JStr r)
        \<and> suffix ''.mjs'' i \<and> suffix ''.js'' r
        \<and> \<not> suffix ''.js'' i \<and> \<not> suffix ''.mjs'' r)
 \<and> getProp (generatePackageJson (baseConfig\<lparr>moduleType := Dual\<rparr>)) ''type''
      = Some (JStr ''module'')
 \<and> getProp (generatePackageJson baseConfig) ''type'' = Some (JStr ''module'')
 \<and> getProp (generatePackageJson (baseConfig\<lparr>moduleType := CommonJS\<rparr>)) ''type''
      = Some (JStr ''commonjs'')"
  using dual_extensions_and_type_field [of "baseConfig\<lparr>moduleType := Dual\<rparr>"]
        dual_extensions_and_type_field [of baseConfig]
        dual_extensions_and_type_field [of "baseConfig\<lparr>moduleType := CommonJS\<rparr>"]
  by (simp add: baseConfig_def)

subsection \<open>Substrings of joined text\<close>

lemma sublist_trans: "sublist xs ys \<Longrightarrow> sublist ys zs \<Longrightarrow> sublist xs zs"
  by (rule sublist_order.order.trans)

lemma sublist_join: "x \<in> set xs \<Longrightarrow> sublist x (join sep xs)"
proof (induction sep xs rule: join.induct)
  case (1 sep)
  then show ?case by simp
next
  case (2 sep y)
  then show ?case by simp
next
  case (3 sep y z zs)
  show ?case
  proof (cases "x = y")
    case True
    then show ?thesis by simp
  next
    case False
    with 3 have "sublist x (join sep (z # zs))" by simp
    then obtain ps ss where "join sep (z # zs) = ps @ x @ ss"
      by (auto simp: sublist_def)
    then have "join sep (y # z # zs) = (y @ sep @ ps) @ x @ ss" by simp
    then show ?thesis unfolding sublist_def by blast
  qed
qed

lemma sublist_lines: "x \<in> set ls \<Longrightarrow> sublist x (lines ls)"
  by (simp add: lines_def sublist_join)

subsection \<open>CI workflow\<close>

lemma steps_in_workflow:
  assumes "s \<in> set (ciSteps c nc av)"
  shows "sublist s (generateCIWorkflow c nc av)"
proof -
  from assms have "sublist s (join (newline @ newline) (ciSteps c nc av))"
    by (rule sublist_join)
  moreover
  have "sublist (join (newline @ newline) (ciSteps c nc av)) (generateCIWorkflow c nc av)"
    unfolding generateCIWorkflow_def Let_def by (rule sublist_lines) simp
  ultimately show ?thesis by (rule sublist_trans)
qed

lemma buildStep_in_steps: "buildStep \<in> set (ciSteps c nc av)"
  by (simp add: ciSteps_def Let_def)

lemma run_build_in_buildStep: "sublist ''run: npm run build'' buildStep"
  unfolding buildStep_def by (rule sublist_trans [OF _ sublist_lines [of
    "''        run: npm run build''"]]) (simp_all add: sublist_code)

lemma build_script:
  "getProp (generateScripts c) ''build'' = (if language c = TypeScript then Some ''tsup'' else None)"
  by (cases "language c"; cases "testRunner c"; cases "useLinting c")
     (simp_all add: generateScripts_def getProp_def Let_def)



text \<open>
  C10.  The steps of every generated CI workflow contain the step \<open>Build\<close> that runs
  \<open>npm run build\<close>, whatever the configuration, and so does the workflow text; the scripts
  of \<open>generateScripts\<close> define \<open>build\<close> only for TypeScript.  For a JavaScript project the
  workflow therefore runs a script that the manifest does not define.
\<close>

theorem ci_build_step_unconditional:
  "buildStep \<in> set (ciSteps c nc av)
 \<and> sublist buildStep (generateCIWorkflow c nc av)
 \<and> sublist ''run: npm run build'' (generateCIWorkflow c nc av)
 \<and> getProp (generateScripts c) ''build''
      = (if language c = TypeScript then Some ''tsup'' else None)"
proof -
  have "sublist buildStep (generateCIWorkflow c nc av)"
    by (rule steps_in_workflow [OF buildStep_in_steps])
  moreover from this have "sublist ''run: npm run build'' (generateCIWorkflow c nc av)"
    by (rule sublist_trans [OF run_build_in_buildStep])
  ultimately show ?thesis by (simp add: buildStep_in_steps build_script)
qed

theorem ci_build_step_unconditional_witness:
  "sublist ''run: npm run build''
     (generateCIWorkflow (baseConfig\<lparr>language := JavaScript\<rparr>) mockNodeConfig mockActionVersions)
 \<and> getProp (generateScripts (baseConfig\<lparr>language := JavaScript\<rparr>)) ''build'' = None"
  using ci_build_step_unconditional
          [of "baseConfig\<lparr>language := JavaScript\<rparr>" mockNodeConfig mockActionVersions]
  by (simp add: baseConfig_def)

subsection \<open>Scripts and development dependencies of the manifest\<close>

text \<open>
  C7, as stated, fails: for the TypeScript configuration of the manifest tests, which has
  linting enabled, \<open>generateScripts\<close> emits \<open>eslint . --ext .ts\<close> for \<open>lint\<close> and
  \<open>eslint . --ext .ts --fix\<close> for \<open>lint:fix\<close>; neither is the command without the
  flag, and both contain \<open>--ext\<close>.
\<close>

theorem lint_scripts_counterexample:
  "useLinting baseConfig
 \<and> getProp (generateScripts baseConfig) ''lint'' = Some ''eslint . --ext .ts''
 \<and> getProp (generateScripts baseConfig) ''lint'' \<noteq> Some ''eslint .''
 \<and> getProp (generateScripts baseConfig) ''lint:fix'' = Some ''eslint . --ext .ts --fix''
 \<and> getProp (generateScripts baseConfig) ''lint:fix'' \<noteq> Some ''eslint . --fix''
 \<and> sublist ''--ext'' ''eslint . --ext .ts''
 \<and> sublist ''--ext'' ''eslint . --ext .ts --fix''"
  by (simp add: generateScripts_def getProp_def Let_def baseConfig_def sublist_code)

text \<open>
  C7, amended.  For every configuration with \<open>useLinting\<close> set, the scripts of
  \<open>generateScripts\<close> contain \<open>lint\<close>, \<open>lint:fix\<close>, \<open>format\<close> and \<open>format:check\<close>,
  where \<open>lint\<close> is \<open>eslint . --ext .ts\<close> and \<open>lint:fix\<close> is
  \<open>eslint . --ext .ts --fix\<close> for TypeScript, and the same with \<open>.js\<close> for JavaScript;
  for every configuration with \<open>useLinting\<close> not set, none of the four scripts is present.
\<close>

theorem lint_scripts_with_ext_flag:
  "(useLinting c \<longrightarrow>
      getProp (generateScripts c) ''lint''
        = Some (''eslint . --ext .'' @ (if language c = TypeScript then ''ts'' else ''js''))
    \<and> getProp (generateScripts c) ''lint:fix''
        = Some (''eslint . --ext .'' @ (if language c = TypeScript then ''ts'' else ''js'')
                @ '' --fix'')
    \<and> getProp (generateScripts c) ''format''
        = Some (''prettier --write '' @ dquote @ ''src/**/*.{ts,js,json,md}'' @ dquote)
    \<and> getProp (generateScripts c) ''format:check''
        = Some (''prettier --check '' @ dquote @ ''src/**/*.{ts,js,json,md}'' @ dquote))
 \<and> (\<not> useLinting c \<longrightarrow>
      getProp (generateScripts c) ''lint'' = None
    \<and> getProp (generateScripts c) ''lint:fix'' = None
    \<and> getProp (generateScripts c) ''format'' = None
    \<and> getProp (generateScripts c) ''format:check'' = None)"
  by (cases "language c"; cases "testRunner c"; cases "useLinting c")
     (simp_all add: generateScripts_def getProp_def Let_def)

theorem lint_scripts_with_ext_flag_witness:
  "getProp (generateScripts baseConfig) ''lint'' = Some ''eslint . --ext .ts''
 \<and> getProp (generateScripts baseConfig) ''lint:fix'' = Some ''eslint . --ext .ts --fix''
 \<and> getProp (generateScripts (baseConfig\<lparr>language := JavaScript\<rparr>)) ''lint''
      = Some ''eslint . --ext .js''
 \<and> getProp (generateScripts (baseConfig\<lparr>language := JavaScript\<rparr>)) ''lint:fix''
      = Some ''eslint . --ext .js --fix''
 \<and> getProp (generateScripts (baseConfig\<lparr>useLinting := False\<rparr>)) ''lint'' = None
 \<and> getProp (generateScripts (baseConfig\<lparr>useLinting := False\<rparr>)) ''format:check'' = None"
  using lint_scripts_with_ext_flag [of baseConfig]
        lint_scripts_with_ext_flag [of "baseConfig\<lparr>language := JavaScript\<rparr>"]
        lint_scripts_with_ext_flag [of "baseConfig\<lparr>useLinting := False\<rparr>"]
  by (simp add: baseConfig_def)

text \<open>
  C8, as stated, fails: a version fetcher result \<open>^5.9.3\<close> for \<open>typescript\<close>, or the
  fallback \<open>latest\<close> for \<open>vitest\<close>, does not reach the development dependencies of the
  configuration of the manifest tests, which are \<open>^5.3.3\<close> and \<open>^1.2.0\<close>.
\<close>

theorem devDependencies_counterexample:
  "map_option version (sampleResolved ''typescript'') = Some ''^5.9.3''
 \<and> getProp (generateDevDependencies baseConfig) ''typescript'' = Some ''^5.3.3''
 \<and> getProp (generateDevDependencies baseConfig) ''typescript''
      \<noteq> map_option version (sampleResolved ''typescript'')
 \<and> map_option version (sampleResolved ''vitest'') = Some ''latest''
 \<and> getProp (generateDevDependencies baseConfig) ''vitest'' = Some ''^1.2.0''
 \<and> getProp (generateDevDependencies baseConfig) ''vitest''
      \<noteq> map_option version (sampleResolved ''vitest'')"
  by (simp add: generateDevDependencies_def getProp_def Let_def baseConfig_def
      sampleResolved_def)

lemma devDependencies_build_tools:
  "getProp (generateDevDependencies c) ''typescript''
     = (if language c = TypeScript then Some ''^5.3.3'' else None)
 \<and> getProp (generateDevDependencies c) ''tsup''
     = (if language c = TypeScript then Some ''^8.0.1'' else None)
 \<and> getProp (generateDevDependencies c) ''@types/node''
     = (if language c = TypeScript then Some ''^20.11.0'' else None)
 \<and> getProp (generateDevDependencies c) ''@arethetypeswrong/cli''
     = (if language c = TypeScript then Some ''^0.15.0'' else None)"
  by (cases "language c"; cases "testRunner c"; cases "useLinting c"; cases "useChangesets c")
     (simp_all add: generateDevDependencies_def getProp_def Let_def)

lemma devDependencies_test_runners:
  "getProp (generateDevDependencies c) ''vitest''
     = (if testRunner c = Vitest then Some ''^1.2.0'' else None)
 \<and> getProp (generateDevDependencies c) ''jest''
     = (if testRunner c = Jest then Some ''^29.7.0'' else None)
 \<and> getProp (generateDevDependencies c) ''ts-jest''
     = (if testRunner c = Jest \<and> language c = TypeScript then Some ''^29.1.1'' else None)
 \<and> getProp (generateDevDependencies c) ''@types/jest''
     = (if testRunner c = Jest \<and> language c = TypeScript then Some ''^29.5.11'' else None)"
  by (cases "language c"; cases "testRunner c"; cases "useLinting c"; cases "useChangesets c")
     (simp_all add: generateDevDependencies_def getProp_def Let_def)

lemma devDependencies_lint_tools:
  "getProp (generateDevDependencies c) ''@typescript-eslint/eslint-plugin''
     = (if useLinting c \<and> language c = TypeScript then Some ''^6.19.0'' else None)
 \<and> getProp (generateDevDependencies c) ''@typescript-eslint/parser''
     = (if useLinting c \<and> language c = TypeScript then Some ''^6.19.0'' else None)
 \<and> getProp (generateDevDependencies c) ''eslint''
     = (if useLinting c then Some ''^8.56.0'' else None)
 \<and> getProp (generateDevDependencies c) ''prettier''
     = (if useLinting c then Some ''^3.2.4'' else None)
 \<and> getProp (generateDevDependencies c) ''eslint-config-prettier''
     = (if useLinting c then Some ''^9.1.0'' else None)
 \<and> getProp (generateDevDependencies c) ''@changesets/cli''
     = (if useChangesets c then Some ''^2.27.1'' else None)"
  by (cases "language c"; cases "testRunner c"; cases "useLinting c"; cases "useChangesets c")
     (simp_all add: generateDevDependencies_def getProp_def Let_def)

lemma devDependencies_names:
  "set (map fst (generateDevDependencies c)) \<subseteq>
     {''typescript'', ''tsup'', ''@types/node'', ''@arethetypeswrong/cli'', ''vitest'',
      ''jest'', ''ts-jest'', ''@types/jest'', ''@typescript-eslint/eslint-plugin'',
      ''@typescript-eslint/parser'', ''eslint'', ''prettier'', ''eslint-config-prettier'',
      ''@changesets/cli''}"
  by (cases "language c"; cases "testRunner c"; cases "useLinting c"; cases "useChangesets c")
     (simp_all add: generateDevDependencies_def Let_def)

text \<open>
  C8, amended.  For every configuration, every entry of the development dependencies of
  \<open>generateDevDependencies\<close> is one of fourteen packages, each present under its flag and
  each with the version that the builder fixes for it; the builder takes the configuration
  only, so no result of the version fetcher changes an emitted version.
\<close>

theorem devDependencies_fixed_versions:
  "set (map fst (generateDevDependencies c)) \<subseteq>
     {''typescript'', ''tsup'', ''@types/node'', ''@arethetypeswrong/cli'', ''vitest'',
      ''jest'', ''ts-jest'', ''@types/jest'', ''@typescript-eslint/eslint-plugin'',
      ''@typescript-eslint/parser'', ''eslint'', ''prettier'', ''eslint-config-prettier'',
      ''@changesets/cli''}
 \<and> getProp (generateDevDependencies c) ''typescript''
     = (if language c = TypeScript then Some ''^5.3.3'' else None)
 \<and> getProp (generateDevDependencies c) ''tsup''
     = (if language c = TypeScript then Some ''^8.0.1'' else None)
 \<and> getProp (generateDevDependencies c) ''@types/node''
     = (if language c = TypeScript then Some ''^20.11.0'' else None)
 \<and> getProp (generateDevDependencies c) ''@arethetypeswrong/cli''
     = (if language c = TypeScript then Some ''^0.15.0'' else None)
 \<and> getProp (generateDevDependencies c) ''vitest''
     = (if testRunner c = Vitest then Some ''^1.2.0'' else None)
 \<and> getProp (generateDevDependencies c) ''jest''
     = (if testRunner c = Jest then Some ''^29.7.0'' else None)
 \<and> getProp (generateDevDependencies c) ''ts-jest''
     = (if testRunner c = Jest \<and> language c = TypeScript then Some ''^29.1.1'' else None)
 \<and> getProp (generateDevDependencies c) ''@types/jest''
     = (if testRunner c = Jest \<and> language c = TypeScript then Some ''^29.5.11'' else None)
 \<and> getProp (generateDevDependencies c) ''@typescript-eslint/eslint-plugin''
     = (if useLinting c \<and> language c = TypeScript then Some ''^6.19.0'' else None)
 \<and> getProp (generateDevDependencies c) ''@typescript-eslint/parser''
     = (if useLinting c \<and> language c = TypeScript then Some ''^6.19.0'' else None)
 \<and> getProp (generateDevDependencies c) ''eslint''
     = (if useLinting c then Some ''^8.56.0'' else None)
 \<and> getProp (generateDevDependencies c) ''prettier''
     = (if useLinting c then Some ''^3.2.4'' else None)
 \<and> getProp (generateDevDependencies c) ''eslint-config-prettier''
     = (if useLinting c then Some ''^9.1.0'' else None)
 \<and> getProp (generateDevDependencies c) ''@changesets/cli''
     = (if useChangesets c then Some ''^2.27.1'' else None)"
  using devDependencies_names [of c] devDependencies_build_tools [of c]
        devDependencies_test_runners [of c] devDependencies_lint_tools [of c]
  by (intro conjI) (elim conjE, assumption)+

subsection \<open>Sorting with a comparator, and first occurrences\<close>

lemma set_insertBy: "set (insertBy cmp x ys) = insert x (set ys)"
  by (induction ys) auto

lemma distinct_insertBy: "distinct (insertBy cmp x ys) = (x \<notin> set ys \<and> distinct ys)"
  by (induction ys) (auto simp: set_insertBy)

lemma set_sortBy: "set (sortBy cmp xs) = set xs"
  by (induction xs) (auto simp: sortBy_def set_insertBy)

lemma distinct_sortBy: "distinct (sortBy cmp xs) = distinct xs"
  by (induction xs) (auto simp: sortBy_def distinct_insertBy set_sortBy [unfolded sortBy_def])

lemma sorted_map_insertBy:
  fixes key :: "'a \<Rightarrow> 'k::linorder"
  assumes "\<forall>a \<in> insert x (set ys). \<forall>b \<in> insert x (set ys). (cmp a b \<le> 0) = (key a \<le> key b)"
    and "sorted (map key ys)"
  shows "sorted (map key (insertBy cmp x ys))"
  using assms
proof (induction ys)
  case Nil
  then show ?case by simp
next
  case (Cons y ys)
  show ?case
  proof (cases "cmp x y \<le> 0")
    case True
    with Cons.prems have "key x \<le> key y" by simp
    with Cons.prems True show ?thesis by auto
  next
    case False
    with Cons.prems have xy: "key y \<le> key x" by auto
    from Cons.prems have "sorted (map key (insertBy cmp x ys))"
      by (intro Cons.IH) auto
    with Cons.prems xy False show ?thesis by (auto simp: set_insertBy)
  qed
qed

lemma sorted_map_sortBy:
  fixes key :: "'a \<Rightarrow> 'k::linorder"
  assumes "\<forall>a \<in> set xs. \<forall>b \<in> set xs. (cmp a b \<le> 0) = (key a \<le> key b)"
  shows "sorted (map key (sortBy cmp xs))"
  using assms
proof (induction xs)
  case Nil
  then show ?case by (simp add: sortBy_def)
next
  case (Cons x xs)
  then have IH: "sorted (map key (sortBy cmp xs))" by simp
  have "sortBy cmp (x # xs) = insertBy cmp x (sortBy cmp xs)" by (simp add: sortBy_def)
  moreover have "sorted (map key (insertBy cmp x (sortBy cmp xs)))"
    using Cons.prems IH by (intro sorted_map_insertBy) (auto simp: set_sortBy)
  ultimately show ?case by simp
qed

lemma indexOf_notin: "v \<notin> set xs \<Longrightarrow> indexOf xs v = - 1"
  by (induction xs) (auto simp: Let_def)

lemma indexOf_in: "v \<in> set xs \<Longrightarrow> 0 \<le> indexOf xs v \<and> nat (indexOf xs v) < length xs \<and> xs ! nat (indexOf xs v) = v"
proof (induction xs)
  case Nil
  then show ?case by simp
next
  case (Cons x xs)
  show ?case
  proof (cases "x = v")
    case True
    then show ?thesis by simp
  next
    case False
    with Cons.prems have "v \<in> set xs" by simp
    then have IH: "0 \<le> indexOf xs v \<and> nat (indexOf xs v) < length xs \<and> xs ! nat (indexOf xs v) = v"
      by (rule Cons.IH)
    then have "nat (indexOf xs v + 1) = Suc (nat (indexOf xs v))" by linarith
    with False IH show ?thesis by (simp add: Let_def)
  qed
qed

lemma set_uniqueFirst: "set (uniqueFirst xs) = set xs"
proof (intro equalityI subsetI)
  fix v assume "v \<in> set (uniqueFirst xs)"
  then show "v \<in> set xs"
    by (auto simp: uniqueFirst_def in_set_enumerate_eq)
next
  fix v assume v: "v \<in> set xs"
  let ?i = "nat (indexOf xs v)"
  from indexOf_in [OF v] have "(?i, v) \<in> set (enumerate 0 xs)" and "indexOf xs v = int ?i"
    by (auto simp: in_set_enumerate_eq)
  then have "(?i, v) \<in> set (filter (\<lambda>(i, v). indexOf xs v = int i) (enumerate 0 xs))"
    by simp
  then show "v \<in> set (uniqueFirst xs)"
    unfolding uniqueFirst_def by (metis image_eqI set_map snd_conv)
qed

lemma distinct_uniqueFirst: "distinct (uniqueFirst xs)"
proof -
  have "inj_on snd (set (filter (\<lambda>(i, v). indexOf xs v = int i) (enumerate 0 xs)))"
    by (auto simp: inj_on_def)
  moreover have "distinct (filter (\<lambda>(i, v). indexOf xs v = int i) (enumerate 0 xs))"
    by (simp add: distinct_enumerate)
  ultimately show ?thesis by (simp add: uniqueFirst_def distinct_map)
qed

subsection \<open>Node.js LTS resolution\<close>

lemma activeLTSMajors_set:
  "set (activeLTSMajors now versions) =
     {m. \<exists>v \<in> set versions. lts v \<noteq> None \<and> m = nodeMajor (dist_version v)
           \<and> 0 < m \<and> \<not> isPastEOL now m}"
  by (auto simp: activeLTSMajors_def set_sortBy set_uniqueFirst)

lemma activeLTSMajors_distinct: "distinct (activeLTSMajors now versions)"
  by (simp add: activeLTSMajors_def distinct_sortBy distinct_uniqueFirst)

lemma activeLTSMajors_descending: "sorted (rev (activeLTSMajors now versions))"
proof -
  have "sorted (map uminus (activeLTSMajors now versions))"
    unfolding activeLTSMajors_def by (rule sorted_map_sortBy) auto
  then have "sorted_wrt (\<lambda>a b. b \<le> a) (activeLTSMajors now versions)"
    by (simp add: sorted_wrt_map)
  then show ?thesis by (simp add: sorted_wrt_rev)
qed

lemma activeLTSMajors_eq:
  "activeLTSMajors now versions =
     rev (sorted_list_of_set
       {m. \<exists>v \<in> set versions. lts v \<noteq> None \<and> m = nodeMajor (dist_version v)
             \<and> 0 < m \<and> \<not> isPastEOL now m})"
proof -
  let ?ms = "activeLTSMajors now versions"
  have "sorted_list_of_set (set (rev ?ms)) = rev ?ms"
    by (intro sorted_list_of_set.idem_if_sorted_distinct)
       (simp_all add: activeLTSMajors_descending activeLTSMajors_distinct)
  then have "rev (sorted_list_of_set (set ?ms)) = ?ms" by simp
  then show ?thesis by (simp only: activeLTSMajors_set)
qed

lemma isPastEOL_table:
  "isPastEOL now m \<longleftrightarrow> (\<exists>d. map_of EOL_DATES m = Some d \<and> d < now)"
  by (simp add: isPastEOL_def split: option.splits)

lemma getNodeLTSVersions_failure:
  "fetchJson response = Inl e \<Longrightarrow> getNodeLTSVersions now response = Inr FALLBACK_NODE_CONFIG"
  by (simp add: getNodeLTSVersions_def nodeLTSBody_def tryCatch_def)

lemma getNodeLTSVersions_success:
  assumes "fetchJson response = Inr versions" and "activeLTSMajors now versions \<noteq> []"
  shows "getNodeLTSVersions now response =
     Inr \<lparr>minimum = (if 2 \<le> length (activeLTSMajors now versions)
                      then activeLTSMajors now versions ! 1
                      else hd (activeLTSMajors now versions)),
          engines = ''>='' @ showInt (if 2 \<le> length (activeLTSMajors now versions)
                      then activeLTSMajors now versions ! 1
                      else hd (activeLTSMajors now versions)) @ ''.0.0'',
          ciMatrix = take 2 (activeLTSMajors now versions),
          latestLTS = hd (activeLTSMajors now versions)\<rparr>"
  using assms
  by (cases "activeLTSMajors now versions")
     (auto simp: getNodeLTSVersions_def nodeLTSBody_def tryCatch_def Let_def)

lemma sample_majors: "activeLTSMajors sampleNow sampleIndex = [22, 20, 18]"
  by (simp add: activeLTSMajors_def sampleNow_def sampleIndex_def nodeMajor_def isDigit_def
     parseDigits_def digitVal_def isPastEOL_def EOL_DATES_def msPerDay_def uniqueFirst_def
     sortBy_def enumerate_eq_zip upt_rec Let_def)

text \<open>
  C6.  The majors that \<open>getNodeLTSVersions\<close> works with are those of the LTS entries of
  the fetched index that are positive and not past their end of life, without duplicates,
  in descending order; a major is past its end of life only if the table has a date for it
  and that date has passed, so a major that the table does not list counts as active.  From
  a non-empty list of majors the result has \<open>ciMatrix\<close> the first two, \<open>latestLTS\<close> the
  first, \<open>minimum\<close> the second if there are two and the first otherwise, and \<open>engines\<close>
  \<open>>=minimum.0.0\<close>.  When the fetch fails, or when no major is left, the result is the
  static fallback configuration as a whole: minimum 20, matrix 20 and 22, latest LTS 22.
\<close>

theorem node_lts_resolution:
  "activeLTSMajors now versions =
     rev (sorted_list_of_set
       {m. \<exists>v \<in> set versions. lts v \<noteq> None \<and> m = nodeMajor (dist_version v)
             \<and> 0 < m \<and> \<not> isPastEOL now m})
 \<and> (isPastEOL now m \<longleftrightarrow> (\<exists>d. map_of EOL_DATES m = Some d \<and> d < now))
 \<and> (fetchJson response = Inr versions \<and> activeLTSMajors now versions \<noteq> [] \<longrightarrow>
      getNodeLTSVersions now response =
        Inr \<lparr>minimum = (if 2 \<le> length (activeLTSMajors now versions)
                         then activeLTSMajors now versions ! 1
                         else hd (activeLTSMajors now versions)),
             engines = ''>='' @ showInt (if 2 \<le> length (activeLTSMajors now versions)
                         then activeLTSMajors now versions ! 1
                         else hd (activeLTSMajors now versions)) @ ''.0.0'',
             ciMatrix = take 2 (activeLTSMajors now versions),
             latestLTS = hd (activeLTSMajors now versions)\<rparr>)
 \<and> (fetchJson response = Inl e \<or>
      (fetchJson response = Inr versions \<and> activeLTSMajors now versions = []) \<longrightarrow>
      getNodeLTSVersions now response = Inr FALLBACK_NODE_CONFIG)
 \<and> FALLBACK_NODE_CONFIG =
      \<lparr>minimum = 20, engines = ''>=20.0.0'', ciMatrix = [20, 22], latestLTS = 22\<rparr>"
proof (intro conjI impI)
  show "activeLTSMajors now versions =
     rev (sorted_list_of_set
       {m. \<exists>v \<in> set versions. lts v \<noteq> None \<and> m = nodeMajor (dist_version v)
             \<and> 0 < m \<and> \<not> isPastEOL now m})"
    by (rule activeLTSMajors_eq)
  show "isPastEOL now m \<longleftrightarrow> (\<exists>d. map_of EOL_DATES m = Some d \<and> d < now)"
    by (rule isPastEOL_table)
  show "FALLBACK_NODE_CONFIG =
      \<lparr>minimum = 20, engines = ''>=20.0.0'', ciMatrix = [20, 22], latestLTS = 22\<rparr>"
    by (simp add: FALLBACK_NODE_CONFIG_def)
next
  assume "fetchJson response = Inr versions \<and> activeLTSMajors now versions \<noteq> []"
  then show "getNodeLTSVersions now response =
        Inr \<lparr>minimum = (if 2 \<le> length (activeLTSMajors now versions)
                         then activeLTSMajors now versions ! 1
                         else hd (activeLTSMajors now versions)),
             engines = ''>='' @ showInt (if 2 \<le> length (activeLTSMajors now versions)
                         then activeLTSMajors now versions ! 1
                         else hd (activeLTSMajors now versions)) @ ''.0.0'',
             ciMatrix = take 2 (activeLTSMajors now versions),
             latestLTS = hd (activeLTSMajors now versions)\<rparr>"
    by (intro getNodeLTSVersions_success) simp_all
next
  assume "fetchJson response = Inl e \<or>
      (fetchJson response = Inr versions \<and> activeLTSMajors now versions = [])"
  then show "getNodeLTSVersions now response = Inr FALLBACK_NODE_CONFIG"
    by (auto simp: getNodeLTSVersions_def nodeLTSBody_def tryCatch_def)
qed

theorem node_lts_resolution_witness:
  "getNodeLTSVersions sampleNow (Response 200 (Some sampleIndex)) =
     Inr \<lparr>minimum = 20, engines = ''>=20.0.0'', ciMatrix = [22, 20], latestLTS = 22\<rparr>
 \<and> getNodeLTSVersions sampleNow Rejected = Inr FALLBACK_NODE_CONFIG
 \<and> getNodeLTSVersions sampleNow (Response 503 (Some sampleIndex)) = Inr FALLBACK_NODE_CONFIG
 \<and> getNodeLTSVersions sampleNow (Response 200 None) = Inr FALLBACK_NODE_CONFIG
 \<and> getNodeLTSVersions sampleNow (Response 200 (Some [])) = Inr FALLBACK_NODE_CONFIG"
proof -
  have twenty: "showInt 20 = ''20''"
    by (simp add: showInt_def showNat.simps digitChar_def)
  have ok: "fetchJson (Response 200 (Some sampleIndex)) = Inr sampleIndex"
    by (simp add: fetchJson_def)
  have 1: "getNodeLTSVersions sampleNow (Response 200 (Some sampleIndex)) =
     Inr \<lparr>minimum = 20, engines = ''>=20.0.0'', ciMatrix = [22, 20], latestLTS = 22\<rparr>"
    using node_lts_resolution
            [where now = sampleNow and versions = sampleIndex
               and response = "Response 200 (Some sampleIndex)"]
    by (simp add: ok sample_majors twenty)
  have 2: "getNodeLTSVersions sampleNow Rejected = Inr FALLBACK_NODE_CONFIG"
    using node_lts_resolution [where now = sampleNow and response = Rejected and e = FetchError]
    by (simp add: fetchJson_def)
  have 3: "getNodeLTSVersions sampleNow (Response 503 (Some sampleIndex))
             = Inr FALLBACK_NODE_CONFIG"
    using node_lts_resolution
            [where now = sampleNow and response = "Response 503 (Some sampleIndex)"
               and e = "HttpError 503"]
    by (simp add: fetchJson_def)
  have 4: "getNodeLTSVersions sampleNow (Response 200 None) = Inr FALLBACK_NODE_CONFIG"
    using node_lts_resolution
            [where now = sampleNow and response = "Response 200 None" and e = JsonError]
    by (simp add: fetchJson_def)
  have 5: "getNodeLTSVersions sampleNow (Response 200 (Some [])) = Inr FALLBACK_NODE_CONFIG"
    using node_lts_resolution
            [where now = sampleNow and response = "Response 200 (Some [])" and versions = "[]"]
    by (simp add: fetchJson_def activeLTSMajors_def uniqueFirst_def sortBy_def)
  from 1 2 3 4 5 show ?thesis by (intro conjI)
qed

subsection \<open>Decimal numerals and splitting\<close>

lemma digitVal_digitChar: "d < 10 \<Longrightarrow> digitVal (digitChar d) = d"
proof -
  assume "d < 10"
  then have "d \<in> {0, 1, 2, 3, 4, 5, 6, 7, 8, 9}" by auto
  then show ?thesis by (auto simp: digitVal_def digitChar_def)
qed

lemma isDigit_digitChar: "d < 10 \<Longrightarrow> isDigit (digitChar d)"
proof -
  assume "d < 10"
  then have "d \<in> {0, 1, 2, 3, 4, 5, 6, 7, 8, 9}" by auto
  then show ?thesis by (auto simp: isDigit_def digitChar_def)
qed

lemma showNat_nonempty: "showNat n \<noteq> []"
  by (subst showNat.simps) simp

lemma showNat_digits: "list_all isDigit (showNat n)"
proof (induction n rule: showNat.induct)
  case (1 n)
  show ?case
  proof (cases "n < 10")
    case True
    then show ?thesis by (subst showNat.simps) (simp add: isDigit_digitChar)
  next
    case False
    with 1 have "list_all isDigit (showNat (n div 10))" by simp
    with False show ?thesis by (subst showNat.simps) (simp add: isDigit_digitChar)
  qed
qed

lemma parseDigits_snoc: "parseDigits (s @ [c]) = 10 * parseDigits s + digitVal c"
  by (simp add: parseDigits_def)

lemma parseDigits_showNat: "parseDigits (showNat n) = n"
proof (induction n rule: showNat.induct)
  case (1 n)
  show ?case
  proof (cases "n < 10")
    case True
    then show ?thesis
      by (subst showNat.simps) (simp add: parseDigits_def digitVal_digitChar)
  next
    case False
    with 1 have "parseDigits (showNat (n div 10)) = n div 10" by simp
    with False show ?thesis
      by (subst showNat.simps) (simp add: parseDigits_snoc digitVal_digitChar)
  qed
qed

lemma toNumber_showNat: "toNumber (showNat n) = Some (int n)"
  by (simp add: toNumber_def showNat_nonempty showNat_digits parseDigits_showNat)

lemma isDigits_showNat: "isDigits (showNat n)"
  by (simp add: isDigits_def showNat_nonempty showNat_digits)

lemma isDigit_not_dot: "isDigit c \<Longrightarrow> c \<noteq> CHR ''.''"
  by (auto simp: isDigit_def)

lemma isDigit_not_hyphen: "isDigit c \<Longrightarrow> c \<noteq> CHR ''-''"
  by (auto simp: isDigit_def)

lemma digits_no_dot: "list_all isDigit s \<Longrightarrow> CHR ''.'' \<notin> set s"
  by (auto simp: list_all_iff dest: isDigit_not_dot)

lemma digits_no_hyphen: "list_all isDigit s \<Longrightarrow> CHR ''-'' \<notin> set s"
  by (auto simp: list_all_iff dest: isDigit_not_hyphen)

lemma splitStr_nonempty: "splitStr sep s \<noteq> []"
  by (induction s) (auto split: list.splits)

lemma splitStr_no_sep: "sep \<notin> set a \<Longrightarrow> splitStr sep a = [a]"
  by (induction a) auto

lemma splitStr_append: "sep \<notin> set a \<Longrightarrow> splitStr sep (a @ sep # b) = a # splitStr sep b"
  by (induction a) auto

lemma splitStr_versionString:
  "map toNumber (splitStr (CHR ''.'') (versionString M m rest)) =
     Some (int M) # Some (int m) # map toNumber (splitStr (CHR ''.'') rest)"
proof -
  have "CHR ''.'' \<notin> set (showNat M)" and "CHR ''.'' \<notin> set (showNat m)"
    by (simp_all add: digits_no_dot showNat_digits)
  then have "splitStr (CHR ''.'') (showNat M @ CHR ''.'' # showNat m @ CHR ''.'' # rest) =
      showNat M # showNat m # splitStr (CHR ''.'') rest"
    by (simp add: splitStr_append)
  then show ?thesis by (simp add: versionString_def toNumber_showNat)
qed

subsection \<open>Age-based warnings\<close>

lemma generateWarning_versionString:
  "generateWarning pkg (versionString M m rest) (Some d) =
     (if m = 0 \<and> d < 30 then
        Some (warnSign @ ''  '' @ pkg @ ''@'' @ versionString M m rest
              @ '' ('' @ daysText (Some d) @ '')'' @ newline
              @ ''   New major version - may contain breaking changes.'' @ newline
              @ ''   If issues occur, downgrade: npm install '' @ pkg @ ''@''
              @ showInt (int M - 1))
      else if m = 1 \<and> d < 14 then
        Some (warnSign @ ''  '' @ pkg @ ''@'' @ versionString M m rest
              @ '' ('' @ daysText (Some d) @ '')'' @ newline
              @ ''   Recently released - may have early bugs.'')
      else None)"
  by (simp add: generateWarning_def splitStr_versionString numAt_def numStrictEq_def
      numLess_def numMinus_def showNum_def Let_def)

lemma sublist_tail: "sublist needle (front @ needle)"
  by (rule sublist_append_leftI)

lemma generateWarning_cases:
  "(m = 0 \<and> d < 30 \<longrightarrow>
      (\<exists>w. generateWarning pkg (versionString M m rest) (Some d) = Some w
         \<and> sublist ''New major version'' w
         \<and> sublist (''downgrade: npm install '' @ pkg @ ''@'' @ showInt (int M - 1)) w))
 \<and> (\<not> (m = 0 \<and> d < 30) \<and> m = 1 \<and> d < 14 \<longrightarrow>
      (\<exists>w. generateWarning pkg (versionString M m rest) (Some d) = Some w
         \<and> sublist ''Recently released - may have early bugs.'' w))
 \<and> (\<not> (m = 0 \<and> d < 30) \<and> \<not> (m = 1 \<and> d < 14) \<longrightarrow>
      generateWarning pkg (versionString M m rest) (Some d) = None)"
proof (intro conjI impI)
  assume c: "m = 0 \<and> d < 30"
  let ?front = "warnSign @ ''  '' @ pkg @ ''@'' @ versionString M m rest
              @ '' ('' @ daysText (Some d) @ '')'' @ newline @ ''   ''"
  let ?mid = "'' - may contain breaking changes.'' @ newline
              @ ''   If issues occur, downgrade: npm install '' @ pkg @ ''@''
              @ showInt (int M - 1)"
  let ?front2 = "?front @ ''New major version - may contain breaking changes.'' @ newline
              @ ''   If issues occur, ''"
  let ?needle = "''downgrade: npm install '' @ pkg @ ''@'' @ showInt (int M - 1)"
  let ?w = "?front @ ''New major version'' @ ?mid"
  from c have w: "generateWarning pkg (versionString M m rest) (Some d) = Some ?w"
    by (simp add: generateWarning_versionString)
  have "sublist ''New major version'' ?w" by (rule sublist_appendI)
  moreover have "?w = ?front2 @ ?needle" by simp
  then have "sublist ?needle ?w" by (simp only: sublist_tail)
  ultimately show "\<exists>w. generateWarning pkg (versionString M m rest) (Some d) = Some w
         \<and> sublist ''New major version'' w
         \<and> sublist (''downgrade: npm install '' @ pkg @ ''@'' @ showInt (int M - 1)) w"
    using w by (intro exI [of _ ?w] conjI)
next
  assume c: "\<not> (m = 0 \<and> d < 30) \<and> m = 1 \<and> d < 14"
  let ?front = "warnSign @ ''  '' @ pkg @ ''@'' @ versionString M m rest
              @ '' ('' @ daysText (Some d) @ '')'' @ newline @ ''   ''"
  let ?needle = "''Recently released - may have early bugs.''"
  from c have w: "generateWarning pkg (versionString M m rest) (Some d) = Some (?front @ ?needle)"
    by (simp add: generateWarning_versionString)
  have "sublist ?needle (?front @ ?needle)" by (rule sublist_tail)
  with w show "\<exists>w. generateWarning pkg (versionString M m rest) (Some d) = Some w
         \<and> sublist ''Recently released - may have early bugs.'' w"
    by (intro exI [of _ "?front @ ?needle"] conjI)
next
  assume "\<not> (m = 0 \<and> d < 30) \<and> \<not> (m = 1 \<and> d < 14)"
  then show "generateWarning pkg (versionString M m rest) (Some d) = None"
    by (simp add: generateWarning_versionString)
qed

lemma latest_success:
  assumes "fetchJson latestResponse = Inr data" and "pkg_version data = Some ver"
  shows "getLatestVersionWithFallback pkgName now latestResponse fullResponse =
           Inr \<lparr>version = ''^'' @ ver,
                warning = generateWarning pkgName ver (daysOldOf now (pkg_time data) ver),
                usedFallback = None\<rparr>"
  using assms
  by (simp add: getLatestVersionWithFallback_def latestBody_def tryCatch_def Let_def)

lemma daysOldOf_published:
  "time ver = Some (Some t) \<Longrightarrow> daysOldOf now time ver = Some ((now - t) div msPerDay)"
  by (simp add: daysOldOf_def floorDiv_def numMinus_def)

text \<open>
  C5.  When the \<open>latest\<close> query succeeds with a version whose major and minor components
  are the numbers \<open>M\<close> and \<open>m\<close> (below \<open>2^53\<close>, where the program's numbers are exact)
  and whose age in whole days is \<open>d \<ge> 0\<close>, \<open>getLatestVersionWithFallback\<close> returns that
  version with a caret and without \<open>usedFallback\<close>, and with this warning: if \<open>m = 0\<close> and
  \<open>d < 30\<close>, the new-major-version warning that suggests the downgrade to \<open>M - 1\<close>;
  otherwise, if \<open>m = 1\<close> and \<open>d < 14\<close>, the early-minor-release warning; otherwise none.
  The age of a version with a publish time \<open>t\<close> is \<open>(now - t) div msPerDay\<close>.  In
  particular \<open>2.0.1\<close> at 5 days carries the suggestion to downgrade to major 1, and
  \<open>2.1.0\<close> at 100 days has no warning.
\<close>

theorem latest_version_warning_rule:
  "(fetchJson latestResponse = Inr data
      \<and> pkg_version data = Some (versionString M m rest)
      \<and> M < 2 ^ 53 \<and> m < 2 ^ 53
      \<and> exactAge now (pkg_time data) (versionString M m rest)
      \<and> daysOldOf now (pkg_time data) (versionString M m rest) = Some d \<and> 0 \<le> d
    \<longrightarrow>
      (\<exists>r. getLatestVersionWithFallback pkgName now latestResponse fullResponse = Inr r
         \<and> version r = ''^'' @ versionString M m rest \<and> usedFallback r = None
         \<and> (m = 0 \<and> d < 30 \<longrightarrow>
              (\<exists>w. warning r = Some w
                 \<and> sublist ''New major version'' w
                 \<and> sublist (''downgrade: npm install '' @ pkgName @ ''@''
                             @ showInt (int M - 1)) w))
         \<and> (\<not> (m = 0 \<and> d < 30) \<and> m = 1 \<and> d < 14 \<longrightarrow>
              (\<exists>w. warning r = Some w
                 \<and> sublist ''Recently released - may have early bugs.'' w))
         \<and> (\<not> (m = 0 \<and> d < 30) \<and> \<not> (m = 1 \<and> d < 14) \<longrightarrow> warning r = None)))
 \<and> (pkg_time data ver = Some (Some t) \<longrightarrow>
       daysOldOf now (pkg_time data) ver = Some ((now - t) div msPerDay))
 \<and> (fetchJson latestResponse = Inr data \<and> pkg_version data = Some ''2.0.1''
      \<and> daysOldOf now (pkg_time data) ''2.0.1'' = Some 5
    \<longrightarrow>
      (\<exists>r w. getLatestVersionWithFallback pkgName now latestResponse fullResponse = Inr r
         \<and> warning r = Some w
         \<and> sublist (''downgrade: npm install '' @ pkgName @ ''@1'') w))
 \<and> (fetchJson latestResponse = Inr data \<and> pkg_version data = Some ''2.1.0''
      \<and> daysOldOf now (pkg_time data) ''2.1.0'' = Some 100
    \<longrightarrow>
      (\<exists>r. getLatestVersionWithFallback pkgName now latestResponse fullResponse = Inr r
         \<and> warning r = None))"
proof (intro conjI impI)
  assume h: "fetchJson latestResponse = Inr data
      \<and> pkg_version data = Some (versionString M m rest)
      \<and> M < 2 ^ 53 \<and> m < 2 ^ 53
      \<and> exactAge now (pkg_time data) (versionString M m rest)
      \<and> daysOldOf now (pkg_time data) (versionString M m rest) = Some d \<and> 0 \<le> d"
  let ?ver = "versionString M m rest"
  let ?r = "\<lparr>version = ''^'' @ ?ver,
             warning = generateWarning pkgName ?ver (Some d),
             usedFallback = None\<rparr>"
  from h have ok: "fetchJson latestResponse = Inr data" and v: "pkg_version data = Some ?ver"
    and d: "daysOldOf now (pkg_time data) ?ver = Some d"
    by simp_all
  have r: "getLatestVersionWithFallback pkgName now latestResponse fullResponse = Inr ?r"
    using latest_success [OF ok v, of pkgName now fullResponse] by (simp only: d)
  note rule = generateWarning_cases [of m d pkgName M rest]
  have "version ?r = ''^'' @ ?ver" and "usedFallback ?r = None" by simp_all
  moreover have "m = 0 \<and> d < 30 \<longrightarrow>
              (\<exists>w. warning ?r = Some w
                 \<and> sublist ''New major version'' w
                 \<and> sublist (''downgrade: npm install '' @ pkgName @ ''@''
                             @ showInt (int M - 1)) w)"
    using rule by simp
  moreover have "\<not> (m = 0 \<and> d < 30) \<and> m = 1 \<and> d < 14 \<longrightarrow>
              (\<exists>w. warning ?r = Some w
                 \<and> sublist ''Recently released - may have early bugs.'' w)"
    using rule by simp
  moreover have "\<not> (m = 0 \<and> d < 30) \<and> \<not> (m = 1 \<and> d < 14) \<longrightarrow> warning ?r = None"
    using rule by simp
  ultimately show "\<exists>r. getLatestVersionWithFallback pkgName now latestResponse fullResponse
           = Inr r
         \<and> version r = ''^'' @ versionString M m rest \<and> usedFallback r = None
         \<and> (m = 0 \<and> d < 30 \<longrightarrow>
              (\<exists>w. warning r = Some w
                 \<and> sublist ''New major version'' w
                 \<and> sublist (''downgrade: npm install '' @ pkgName @ ''@''
                             @ showInt (int M - 1)) w))
         \<and> (\<not> (m = 0 \<and> d < 30) \<and> m = 1 \<and> d < 14 \<longrightarrow>
              (\<exists>w. warning r = Some w
                 \<and> sublist ''Recently released - may have early bugs.'' w))
         \<and> (\<not> (m = 0 \<and> d < 30) \<and> \<not> (m = 1 \<and> d < 14) \<longrightarrow> warning r = None)"
    using r by (intro exI [of _ ?r] conjI)
next
  assume "pkg_time data ver = Some (Some t)"
  then show "daysOldOf now (pkg_time data) ver = Some ((now - t) div msPerDay)"
    by (rule daysOldOf_published)
next
  assume h: "fetchJson latestResponse = Inr data \<and> pkg_version data = Some ''2.0.1''
      \<and> daysOldOf now (pkg_time data) ''2.0.1'' = Some 5"
  have v1: "versionString 2 0 ''1'' = ''2.0.1''" and one: "showInt (int 2 - 1) = ''1''"
    by (simp_all add: versionString_def showInt_def showNat.simps digitChar_def)
  from generateWarning_cases [of 0 5 pkgName 2 "''1''"]
  obtain w where w: "generateWarning pkgName ''2.0.1'' (Some 5) = Some w"
    and s: "sublist (''downgrade: npm install '' @ pkgName @ ''@1'') w"
    unfolding v1 one by auto
  let ?r = "\<lparr>version = ''^'' @ ''2.0.1'', warning = Some w, usedFallback = None\<rparr>"
  from h have ok: "fetchJson latestResponse = Inr data"
    and v: "pkg_version data = Some ''2.0.1''"
    and d: "daysOldOf now (pkg_time data) ''2.0.1'' = Some 5"
    by simp_all
  have "getLatestVersionWithFallback pkgName now latestResponse fullResponse = Inr ?r"
    using latest_success [OF ok v, of pkgName now fullResponse] by (simp only: d w)
  moreover have "warning ?r = Some w" by simp
  ultimately show "\<exists>r w. getLatestVersionWithFallback pkgName now latestResponse fullResponse
           = Inr r
         \<and> warning r = Some w
         \<and> sublist (''downgrade: npm install '' @ pkgName @ ''@1'') w"
    using s by (intro exI [of _ ?r] exI [of _ w] conjI)
next
  assume h: "fetchJson latestResponse = Inr data \<and> pkg_version data = Some ''2.1.0''
      \<and> daysOldOf now (pkg_time data) ''2.1.0'' = Some 100"
  have v3: "versionString 2 1 ''0'' = ''2.1.0''"
    by (simp add: versionString_def showNat.simps digitChar_def)
  from generateWarning_cases [of 1 100 pkgName 2 "''0''"]
  have w: "generateWarning pkgName ''2.1.0'' (Some 100) = None"
    unfolding v3 by simp
  let ?r = "\<lparr>version = ''^'' @ ''2.1.0'', warning = None, usedFallback = None\<rparr>"
  from h have ok: "fetchJson latestResponse = Inr data"
    and v: "pkg_version data = Some ''2.1.0''"
    and d: "daysOldOf now (pkg_time data) ''2.1.0'' = Some 100"
    by simp_all
  have "getLatestVersionWithFallback pkgName now latestResponse fullResponse = Inr ?r"
    using latest_success [OF ok v, of pkgName now fullResponse] by (simp only: d w)
  moreover have "warning ?r = None" by simp
  ultimately show "\<exists>r. getLatestVersionWithFallback pkgName now latestResponse fullResponse
           = Inr r \<and> warning r = None"
    by (intro exI [of _ ?r] conjI)
qed

lemma published_age:
  "daysOldOf sampleNow (pkg_time (publishedDaysAgo ver days)) ver = Some days"
  by (simp add: publishedDaysAgo_def daysOldOf_def floorDiv_def numMinus_def msPerDay_def)

theorem latest_version_warning_rule_witness:
  "(\<exists>r. getLatestVersionWithFallback ''pkg'' sampleNow
           (Response 200 (Some (publishedDaysAgo ''2.0.1'' 5))) Rejected = Inr r
      \<and> version r = ''^2.0.1'' \<and> usedFallback r = None
      \<and> (\<exists>w. warning r = Some w
            \<and> sublist ''New major version'' w
            \<and> sublist ''downgrade: npm install pkg@1'' w))
 \<and> (\<exists>r. getLatestVersionWithFallback ''pkg'' sampleNow
           (Response 200 (Some (publishedDaysAgo ''3.1.4'' 2))) Rejected = Inr r
      \<and> version r = ''^3.1.4'' \<and> usedFallback r = None
      \<and> (\<exists>w. warning r = Some w
            \<and> sublist ''Recently released - may have early bugs.'' w))
 \<and> (\<exists>r. getLatestVersionWithFallback ''pkg'' sampleNow
           (Response 200 (Some (publishedDaysAgo ''2.1.0'' 100))) Rejected = Inr r
      \<and> version r = ''^2.1.0'' \<and> usedFallback r = None
      \<and> warning r = None)"
proof -
  have v1: "versionString 2 0 ''1'' = ''2.0.1''" and v2: "versionString 3 1 ''4'' = ''3.1.4''"
    and v3: "versionString 2 1 ''0'' = ''2.1.0''" and one: "showInt (int 2 - 1) = ''1''"
    by (simp_all add: versionString_def showInt_def showNat.simps digitChar_def)
  have ok: "fetchJson (Response 200 (Some x)) = Inr x" for x :: NpmPackageData
    by (simp add: fetchJson_def)
  have ver: "pkg_version (publishedDaysAgo v n) = Some v" for v n
    by (simp add: publishedDaysAgo_def)
  have exact5: "exactAge sampleNow (pkg_time (publishedDaysAgo v 5)) v"
    and exact2: "exactAge sampleNow (pkg_time (publishedDaysAgo v 2)) v"
    and exact100: "exactAge sampleNow (pkg_time (publishedDaysAgo v 100)) v" for v
    by (simp_all add: exactAge_def publishedDaysAgo_def msPerDay_def)
  have h1: "fetchJson (Response 200 (Some (publishedDaysAgo ''2.0.1'' 5)))
        = Inr (publishedDaysAgo ''2.0.1'' 5)
      \<and> pkg_version (publishedDaysAgo ''2.0.1'' 5) = Some (versionString 2 0 ''1'')
      \<and> (2::nat) < 2 ^ 53 \<and> (0::nat) < 2 ^ 53
      \<and> exactAge sampleNow (pkg_time (publishedDaysAgo ''2.0.1'' 5)) (versionString 2 0 ''1'')
      \<and> daysOldOf sampleNow (pkg_time (publishedDaysAgo ''2.0.1'' 5)) (versionString 2 0 ''1'')
          = Some 5 \<and> (0::int) \<le> 5"
    unfolding v1 by (simp add: ok ver exact5 published_age)
  have h2: "fetchJson (Response 200 (Some (publishedDaysAgo ''3.1.4'' 2)))
        = Inr (publishedDaysAgo ''3.1.4'' 2)
      \<and> pkg_version (publishedDaysAgo ''3.1.4'' 2) = Some (versionString 3 1 ''4'')
      \<and> (3::nat) < 2 ^ 53 \<and> (1::nat) < 2 ^ 53
      \<and> exactAge sampleNow (pkg_time (publishedDaysAgo ''3.1.4'' 2)) (versionString 3 1 ''4'')
      \<and> daysOldOf sampleNow (pkg_time (publishedDaysAgo ''3.1.4'' 2)) (versionString 3 1 ''4'')
          = Some 2 \<and> (0::int) \<le> 2"
    unfolding v2 by (simp add: ok ver exact2 published_age)
  have h3: "fetchJson (Response 200 (Some (publishedDaysAgo ''2.1.0'' 100)))
        = Inr (publishedDaysAgo ''2.1.0'' 100)
      \<and> pkg_version (publishedDaysAgo ''2.1.0'' 100) = Some (versionString 2 1 ''0'')
      \<and> (2::nat) < 2 ^ 53 \<and> (1::nat) < 2 ^ 53
      \<and> exactAge sampleNow (pkg_time (publishedDaysAgo ''2.1.0'' 100)) (versionString 2 1 ''0'')
      \<and> daysOldOf sampleNow (pkg_time (publishedDaysAgo ''2.1.0'' 100))
           (versionString 2 1 ''0'') = Some 100 \<and> (0::int) \<le> 100"
    unfolding v3 by (simp add: ok ver exact100 published_age)
  note rule = latest_version_warning_rule [THEN conjunct1, THEN mp]
  from rule [OF h1, of "''pkg''" Rejected]
  have 1: "\<exists>r. getLatestVersionWithFallback ''pkg'' sampleNow
           (Response 200 (Some (publishedDaysAgo ''2.0.1'' 5))) Rejected = Inr r
      \<and> version r = ''^2.0.1'' \<and> usedFallback r = None
      \<and> (\<exists>w. warning r = Some w
            \<and> sublist ''New major version'' w
            \<and> sublist ''downgrade: npm install pkg@1'' w)"
    unfolding v1 one by simp
  from rule [OF h2, of "''pkg''" Rejected]
  have 2: "\<exists>r. getLatestVersionWithFallback ''pkg'' sampleNow
           (Response 200 (Some (publishedDaysAgo ''3.1.4'' 2))) Rejected = Inr r
      \<and> version r = ''^3.1.4'' \<and> usedFallback r = None
      \<and> (\<exists>w. warning r = Some w
            \<and> sublist ''Recently released - may have early bugs.'' w)"
    unfolding v2 by simp
  from rule [OF h3, of "''pkg''" Rejected]
  have 3: "\<exists>r. getLatestVersionWithFallback ''pkg'' sampleNow
           (Response 200 (Some (publishedDaysAgo ''2.1.0'' 100))) Rejected = Inr r
      \<and> version r = ''^2.1.0'' \<and> usedFallback r = None
      \<and> warning r = None"
    unfolding v3 by simp
  from 1 2 3 show ?thesis by (intro conjI)
qed

subsection \<open>Version resolution with fallback\<close>

lemma set_stableVersionsOf:
  "set (stableVersionsOf allVersions) = {v \<in> set allVersions. isStableVersion v}"
  by (auto simp: stableVersionsOf_def set_sortBy isStableVersion_def)

lemma firstOldEnough_Some:
  "firstOldEnough pkgName now time vs = Some r \<Longrightarrow>
     \<exists>v \<in> set vs. version r = ''^'' @ v \<and> usedFallback r = Some True"
  by (induction vs) (auto simp: Let_def split: if_splits)

lemma isCaretSemver_caret: "isCaretSemver (CHR ''^'' # v) = matchesSemver v"
  by (simp add: isCaretSemver_def)

lemma stableFallbackBody_result:
  assumes "stableFallbackBody pkgName now response = Inr r"
  shows "usedFallback r = Some True \<and> isCaretSemver (version r)"
proof -
  from assms obtain data where data: "fetchJson response = Inr data"
    by (auto simp: stableFallbackBody_def split: sum.splits)
  let ?S = "stableVersionsOf (pkg_versions data)"
  from assms data obtain latestStable rest where S: "?S = latestStable # rest"
    by (auto simp: stableFallbackBody_def Let_def split: list.splits)
  have stable: "matchesSemver v" if "v \<in> set ?S" for v
    using that by (simp add: set_stableVersionsOf isStableVersion_def)
  show ?thesis
  proof (cases "firstOldEnough pkgName now (pkg_time data) ?S")
    case None
    with assms data S have "r = \<lparr>version = ''^'' @ latestStable,
        warning = Some (infoSign @ ''  Using fallback: '' @ pkgName @ ''@'' @ latestStable),
        usedFallback = Some True\<rparr>"
      by (simp add: stableFallbackBody_def Let_def)
    moreover have "matchesSemver latestStable" by (rule stable) (simp add: S)
    ultimately show ?thesis by (simp add: isCaretSemver_caret)
  next
    case (Some r')
    with assms data S have "r = r'" by (simp add: stableFallbackBody_def Let_def)
    with Some obtain v where "v \<in> set ?S" and "version r = ''^'' @ v"
      and "usedFallback r = Some True"
      by (auto dest: firstOldEnough_Some)
    then show ?thesis by (simp add: isCaretSemver_caret stable)
  qed
qed

lemma could_not_fetch:
  "sublist ''Could not fetch''
     (warnSign @ ''  Could not fetch '' @ pkgName @ '' versions, using '' @ dquote @ ''latest''
      @ dquote)"
proof -
  have "warnSign @ ''  Could not fetch '' @ pkgName @ '' versions, using '' @ dquote
          @ ''latest'' @ dquote
        = (warnSign @ ''  '') @ ''Could not fetch''
          @ ('' '' @ pkgName @ '' versions, using '' @ dquote @ ''latest'' @ dquote)"
    by simp
  then show ?thesis by (simp only: sublist_appendI)
qed

lemma getStableFallbackVersion_cases:
  "(\<exists>e. stableFallbackBody pkgName now response = Inl e
       \<and> getStableFallbackVersion pkgName now response =
           Inr \<lparr>version = ''latest'',
                warning = Some (warnSign @ ''  Could not fetch '' @ pkgName
                                @ '' versions, using '' @ dquote @ ''latest'' @ dquote),
                usedFallback = Some True\<rparr>)
 \<or> (\<exists>r. stableFallbackBody pkgName now response = Inr r
       \<and> getStableFallbackVersion pkgName now response = Inr r)"
  by (cases "stableFallbackBody pkgName now response")
     (simp_all add: getStableFallbackVersion_def tryCatch_def)

lemma latestBody_fetch_failure:
  "fetchJson latestResponse = Inl e \<Longrightarrow> latestBody pkgName now latestResponse = Inl e"
  by (simp add: latestBody_def)

lemma stableFallbackBody_fetch_failure:
  "fetchJson response = Inl e \<Longrightarrow> stableFallbackBody pkgName now response = Inl e"
  by (simp add: stableFallbackBody_def)

text \<open>
  C3.  \<open>getLatestVersionWithFallback\<close> returns a result whatever the two registry queries
  do; it never throws.  Whenever the first attempt throws (the fetch rejects or times out, the
  status is not OK, the body cannot be read), the result has \<open>usedFallback\<close> true and a
  version that is a caret range \<open>^x.y.z\<close> or the string \<open>latest\<close>.  When the fallback
  attempt throws as well, the result is the version \<open>latest\<close> with \<open>usedFallback\<close> true and
  a warning that contains \<open>Could not fetch\<close>.
\<close>

theorem version_resolution_never_throws:
  "\<exists>r. getLatestVersionWithFallback pkgName now latestResponse fullResponse = Inr r
     \<and> (latestBody pkgName now latestResponse = Inl e \<longrightarrow>
          usedFallback r = Some True \<and> (isCaretSemver (version r) \<or> version r = ''latest''))
     \<and> (latestBody pkgName now latestResponse = Inl e
          \<and> stableFallbackBody pkgName now fullResponse = Inl e' \<longrightarrow>
          version r = ''latest'' \<and> usedFallback r = Some True
          \<and> (\<exists>w. warning r = Some w \<and> sublist ''Could not fetch'' w))"
proof (cases "latestBody pkgName now latestResponse")
  case (Inr r)
  then show ?thesis by (simp add: getLatestVersionWithFallback_def tryCatch_def)
next
  case (Inl e0)
  then have eq: "getLatestVersionWithFallback pkgName now latestResponse fullResponse
      = getStableFallbackVersion pkgName now fullResponse"
    by (simp add: getLatestVersionWithFallback_def tryCatch_def)
  from getStableFallbackVersion_cases [of pkgName now fullResponse] show ?thesis
  proof (elim disjE exE conjE)
    fix e1
    assume "stableFallbackBody pkgName now fullResponse = Inl e1"
      and "getStableFallbackVersion pkgName now fullResponse =
           Inr \<lparr>version = ''latest'',
                warning = Some (warnSign @ ''  Could not fetch '' @ pkgName
                                @ '' versions, using '' @ dquote @ ''latest'' @ dquote),
                usedFallback = Some True\<rparr>"
    then show ?thesis unfolding eq using could_not_fetch [of pkgName] by simp
  next
    fix r
    assume body: "stableFallbackBody pkgName now fullResponse = Inr r"
      and "getStableFallbackVersion pkgName now fullResponse = Inr r"
    moreover from body have "usedFallback r = Some True \<and> isCaretSemver (version r)"
      by (rule stableFallbackBody_result)
    ultimately show ?thesis unfolding eq by simp
  qed
qed

theorem version_resolution_never_throws_witness:
  "(\<exists>r. getLatestVersionWithFallback ''left-pad-9999-fake'' sampleNow Rejected Rejected = Inr r
      \<and> version r = ''latest'' \<and> usedFallback r = Some True
      \<and> (\<exists>w. warning r = Some w \<and> sublist ''Could not fetch'' w))
 \<and> (\<exists>r. getLatestVersionWithFallback ''p'' sampleNow (Response 404 None)
            (Response 200 (Some sampleRegistry)) = Inr r
      \<and> usedFallback r = Some True
      \<and> (isCaretSemver (version r) \<or> version r = ''latest''))"
proof -
  have p1: "latestBody ''left-pad-9999-fake'' sampleNow Rejected = Inl FetchError"
    and q1: "stableFallbackBody ''left-pad-9999-fake'' sampleNow Rejected = Inl FetchError"
    and p2: "latestBody ''p'' sampleNow (Response 404 None) = Inl (HttpError 404)"
    by (simp_all add: latestBody_def stableFallbackBody_def fetchJson_def)
  from version_resolution_never_throws
         [of "''left-pad-9999-fake''" sampleNow Rejected Rejected FetchError FetchError]
  obtain r where a: "getLatestVersionWithFallback ''left-pad-9999-fake'' sampleNow Rejected
                       Rejected = Inr r"
    and c: "latestBody ''left-pad-9999-fake'' sampleNow Rejected = Inl FetchError
          \<and> stableFallbackBody ''left-pad-9999-fake'' sampleNow Rejected = Inl FetchError \<longrightarrow>
          version r = ''latest'' \<and> usedFallback r = Some True
          \<and> (\<exists>w. warning r = Some w \<and> sublist ''Could not fetch'' w)"
    by (elim exE conjE) (rule that)
  from c p1 q1 have "version r = ''latest'' \<and> usedFallback r = Some True
          \<and> (\<exists>w. warning r = Some w \<and> sublist ''Could not fetch'' w)"
    by (elim impE) (intro conjI)
  with a have first: "\<exists>r. getLatestVersionWithFallback ''left-pad-9999-fake'' sampleNow
                       Rejected Rejected = Inr r
      \<and> version r = ''latest'' \<and> usedFallback r = Some True
      \<and> (\<exists>w. warning r = Some w \<and> sublist ''Could not fetch'' w)"
    by (intro exI [of _ r] conjI) (elim conjE, assumption)+
  from version_resolution_never_throws
         [of "''p''" sampleNow "Response 404 None" "Response 200 (Some sampleRegistry)"
             "HttpError 404" FetchError]
  obtain r' where a': "getLatestVersionWithFallback ''p'' sampleNow (Response 404 None)
            (Response 200 (Some sampleRegistry)) = Inr r'"
    and b': "latestBody ''p'' sampleNow (Response 404 None) = Inl (HttpError 404) \<longrightarrow>
          usedFallback r' = Some True
          \<and> (isCaretSemver (version r') \<or> version r' = ''latest'')"
    by (elim exE conjE) (rule that)
  from b' p2 have "usedFallback r' = Some True
          \<and> (isCaretSemver (version r') \<or> version r' = ''latest'')"
    by (elim impE)
  with a' have second: "\<exists>r. getLatestVersionWithFallback ''p'' sampleNow (Response 404 None)
            (Response 200 (Some sampleRegistry)) = Inr r
      \<and> usedFallback r = Some True
      \<and> (isCaretSemver (version r) \<or> version r = ''latest'')"
    by (intro exI [of _ r'] conjI) (elim conjE, assumption)+
  from first second show ?thesis by (intro conjI)
qed

subsection \<open>The first fallback tier\<close>

lemma join_Cons_Cons: "join sep ((c # w) # ws) = c # join sep (w # ws)"
  by (cases ws) simp_all

lemma join_splitStr: "join [sep] (splitStr sep s) = s"
proof (induction s)
  case Nil
  show ?case by simp
next
  case (Cons c cs)
  obtain w ws where split: "splitStr sep cs = w # ws"
    using splitStr_nonempty [of sep cs] by (cases "splitStr sep cs") auto
  show ?case
  proof (cases "c = sep")
    case True
    with Cons split show ?thesis by simp
  next
    case False
    with Cons split show ?thesis by (simp add: join_Cons_Cons)
  qed
qed

lemma splitStr_three:
  assumes "splitStr sep v = [a, b, c]"
  shows "v = a @ [sep] @ b @ [sep] @ c"
proof -
  have "join [sep] (splitStr sep v) = v" by (rule join_splitStr)
  with assms show ?thesis by simp
qed

lemma matchesSemver_iff:
  "matchesSemver v \<longleftrightarrow>
     (\<exists>a b c. isDigits a \<and> isDigits b \<and> isDigits c \<and> v = a @ ''.'' @ b @ ''.'' @ c)"
proof
  assume "matchesSemver v"
  then obtain a b c where split: "splitStr (CHR ''.'') v = [a, b, c]"
    and digits: "isDigits a" "isDigits b" "isDigits c"
    by (auto simp: matchesSemver_def split: list.splits)
  from split have "v = a @ ''.'' @ b @ ''.'' @ c" by (rule splitStr_three)
  with digits show "\<exists>a b c. isDigits a \<and> isDigits b \<and> isDigits c \<and> v = a @ ''.'' @ b @ ''.'' @ c"
    by (intro exI [of _ a] exI [of _ b] exI [of _ c] conjI)
next
  assume "\<exists>a b c. isDigits a \<and> isDigits b \<and> isDigits c \<and> v = a @ ''.'' @ b @ ''.'' @ c"
  then obtain a b c where digits: "isDigits a" "isDigits b" "isDigits c"
    and v: "v = a @ ''.'' @ b @ ''.'' @ c"
    by (elim exE conjE)
  from digits have "CHR ''.'' \<notin> set a" "CHR ''.'' \<notin> set b" "CHR ''.'' \<notin> set c"
    by (simp_all add: isDigits_def digits_no_dot)
  then have "splitStr (CHR ''.'') (a @ CHR ''.'' # b @ CHR ''.'' # c) = [a, b, c]"
    by (simp add: splitStr_append splitStr_no_sep)
  with digits v show "matchesSemver v" by (simp add: matchesSemver_def)
qed

lemma isStableVersion_iff:
  "isStableVersion v \<longleftrightarrow>
     (\<exists>a b c. isDigits a \<and> isDigits b \<and> isDigits c \<and> v = a @ ''.'' @ b @ ''.'' @ c)"
proof -
  have "CHR ''-'' \<notin> set v"
    if "isDigits a" "isDigits b" "isDigits c" "v = a @ ''.'' @ b @ ''.'' @ c" for a b c
    using that by (simp add: isDigits_def digits_no_hyphen)
  then show ?thesis unfolding isStableVersion_def matchesSemver_iff by fast
qed

lemma compareVersions_stable:
  assumes "isStableVersion a" and "isStableVersion b"
  shows "(compareVersions a b \<le> 0) = (versionTriple a \<le> versionTriple b)"
proof -
  from assms(1) obtain a1 a2 a3 where a: "splitStr (CHR ''.'') a = [a1, a2, a3]"
    and da: "isDigits a1" "isDigits a2" "isDigits a3"
    by (auto simp: isStableVersion_def matchesSemver_def split: list.splits)
  from assms(2) obtain b1 b2 b3 where b: "splitStr (CHR ''.'') b = [b1, b2, b3]"
    and db: "isDigits b1" "isDigits b2" "isDigits b3"
    by (auto simp: isStableVersion_def matchesSemver_def split: list.splits)
  have num: "toNumber s = Some (int (parseDigits s))" if "isDigits s" for s
    using that by (simp add: toNumber_def isDigits_def)
  show ?thesis
    by (auto simp: compareVersions_def versionTriple_def a b num da db numAt_def
        numGreater_def numLess_def Let_def numeral_2_eq_2)
qed

lemma stableVersionsOf_descending:
  "sorted_wrt (\<lambda>v w. versionTriple w \<le> versionTriple v) (stableVersionsOf allVersions)"
proof -
  let ?kept = "filter matchesSemver (filter (\<lambda>v. CHR ''-'' \<notin> set v) allVersions)"
  have "\<forall>a \<in> set ?kept. isStableVersion a"
    by (simp add: isStableVersion_def)
  then have "sorted (map versionTriple (sortBy compareVersions ?kept))"
    by (intro sorted_map_sortBy ballI compareVersions_stable) simp_all
  then have "sorted_wrt (\<lambda>v w. versionTriple v \<le> versionTriple w)
               (sortBy compareVersions ?kept)"
    by (simp add: sorted_wrt_map)
  then show ?thesis by (simp add: stableVersionsOf_def sorted_wrt_rev)
qed

lemma firstOldEnough_find:
  "firstOldEnough pkgName now time vs =
     map_option
       (\<lambda>v. \<lparr>version = ''^'' @ v,
              warning = Some (infoSign @ ''  Using stable fallback: '' @ pkgName @ ''@'' @ v
                              @ '' ('' @ showNum (daysOldOf now time v) @ '' days old)''),
              usedFallback = Some True\<rparr>)
       (find (oldEnough now time) vs)"
  by (induction vs) (simp_all add: oldEnough_def Let_def)

lemma find_descending_greatest:
  fixes key :: "'a \<Rightarrow> 'k::linorder"
  assumes "sorted_wrt (\<lambda>v w. key w \<le> key v) xs" and "find P xs = Some v"
    and "u \<in> set xs" and "P u"
  shows "key u \<le> key v"
  using assms
proof (induction xs)
  case Nil
  then show ?case by simp
next
  case (Cons x xs)
  show ?case
  proof (cases "P x")
    case True
    with Cons.prems have "v = x" by simp
    with Cons.prems show ?thesis by auto
  next
    case False
    with Cons.prems have "find P xs = Some v" and "u \<in> set xs" by auto
    with Cons.prems Cons.IH show ?thesis by simp
  qed
qed

lemma hd_descending_greatest:
  fixes key :: "'a \<Rightarrow> 'k::linorder"
  assumes "sorted_wrt (\<lambda>v w. key w \<le> key v) xs" and "u \<in> set xs"
  shows "key u \<le> key (hd xs)"
  using assms by (cases xs) auto

lemma oldEnough_iff:
  "oldEnough now time v \<longleftrightarrow> (\<exists>t. time v = Some (Some t) \<and> 30 * msPerDay \<le> now - t)"
proof (cases "time v")
  case None
  then show ?thesis
    by (simp add: oldEnough_def daysOldOf_def floorDiv_def numMinus_def numGreaterEq_def)
next
  case (Some p)
  show ?thesis
  proof (cases p)
    case None
    with Some show ?thesis
      by (simp add: oldEnough_def daysOldOf_def floorDiv_def numMinus_def numGreaterEq_def)
  next
    case (Some t)
    have "(30 \<le> (now - t) div 86400000) = (30 * 86400000 \<le> now - t)" by arith
    with Some \<open>time v = Some p\<close> show ?thesis
      by (simp add: oldEnough_def daysOldOf_def floorDiv_def numMinus_def numGreaterEq_def
          msPerDay_def)
  qed
qed

lemma stable_fallback_old:
  assumes "fetchJson response = Inr data"
    and "find (oldEnough now (pkg_time data)) (stableVersionsOf (pkg_versions data)) = Some v"
  shows "\<exists>w. getStableFallbackVersion pkgName now response =
           Inr \<lparr>version = ''^'' @ v, warning = Some w, usedFallback = Some True\<rparr>"
proof -
  from assms(2) have "stableVersionsOf (pkg_versions data) \<noteq> []" by auto
  then obtain x xs where "stableVersionsOf (pkg_versions data) = x # xs"
    by (cases "stableVersionsOf (pkg_versions data)") auto
  with assms show ?thesis
    by (simp add: getStableFallbackVersion_def stableFallbackBody_def tryCatch_def Let_def
        firstOldEnough_find)
qed

lemma stable_fallback_newest:
  assumes "fetchJson response = Inr data"
    and "stableVersionsOf (pkg_versions data) \<noteq> []"
    and "find (oldEnough now (pkg_time data)) (stableVersionsOf (pkg_versions data)) = None"
  shows "\<exists>w. getStableFallbackVersion pkgName now response =
           Inr \<lparr>version = ''^'' @ hd (stableVersionsOf (pkg_versions data)), warning = Some w,
                usedFallback = Some True\<rparr>"
proof -
  from assms(2) obtain x xs where "stableVersionsOf (pkg_versions data) = x # xs"
    by (cases "stableVersionsOf (pkg_versions data)") auto
  with assms show ?thesis
    by (simp add: getStableFallbackVersion_def stableFallbackBody_def tryCatch_def Let_def
        firstOldEnough_find)
qed

lemma sample_stable: "stableVersionsOf sampleVersions = [''2.0.0'', ''1.10.0'', ''1.9.0'']"
  by (simp add: stableVersionsOf_def sampleVersions_def isStableVersion_def matchesSemver_def
      isDigits_def isDigit_def sortBy_def compareVersions_def toNumber_def parseDigits_def
      digitVal_def numAt_def numGreater_def numLess_def Let_def)

lemma sample_find:
  "find (oldEnough sampleNow (pkg_time sampleRegistry)) [''2.0.0'', ''1.10.0'', ''1.9.0'']
     = Some ''1.10.0''"
  by (simp add: oldEnough_iff sampleRegistry_def msPerDay_def)

lemma fresh_find:
  "find (oldEnough sampleNow (pkg_time freshRegistry)) [''2.0.0'', ''1.10.0'', ''1.9.0'']
     = None"
  by (simp add: oldEnough_iff freshRegistry_def msPerDay_def)

lemma sample_exact:
  "exactVersions (pkg_versions sampleRegistry)"
  "exactVersions (pkg_versions freshRegistry)"
  "exactAges sampleNow (pkg_time sampleRegistry) (pkg_versions sampleRegistry)"
  "exactAges sampleNow (pkg_time freshRegistry) (pkg_versions freshRegistry)"
  by (simp_all add: exactVersions_def exactAges_def exactAge_def exactVersion_def
      sampleRegistry_def freshRegistry_def sampleVersions_def isStableVersion_def
      matchesSemver_def isDigits_def isDigit_def versionTriple_def parseDigits_def
      digitVal_def msPerDay_def)

text \<open>
  C4.  In the first fallback tier the versions kept from the package document are exactly
  those of the form digits, dot, digits, dot, digits.  Where the components of the kept
  versions and the ages are below \<open>2^53\<close>, so that the program's numbers are exact: the
  kept versions are ordered descending by the numeric triple of major, minor and patch; a
  version is old enough when its publish time lies at least 30 whole days back; if some kept
  version is old enough, the result is the first such version in that order, which is the
  greatest old-enough version, with a caret in front and \<open>usedFallback\<close> true; and if
  none is old enough, the result is the first version of the order, the newest stable
  version, tagged the same way.
\<close>

theorem stable_fallback_tier:
  "set (stableVersionsOf (pkg_versions data)) =
     {v \<in> set (pkg_versions data).
        \<exists>a b c. isDigits a \<and> isDigits b \<and> isDigits c \<and> v = a @ ''.'' @ b @ ''.'' @ c}
 \<and> (exactVersions (pkg_versions data)
      \<and> exactAges now (pkg_time data) (pkg_versions data)
    \<longrightarrow>
      sorted_wrt (\<lambda>v w. versionTriple w \<le> versionTriple v)
        (stableVersionsOf (pkg_versions data))
    \<and> (u \<in> set (pkg_versions data) \<longrightarrow>
          (oldEnough now (pkg_time data) u \<longleftrightarrow>
             (\<exists>t. pkg_time data u = Some (Some t) \<and> 30 * msPerDay \<le> now - t)))
    \<and> (fetchJson response = Inr data
         \<and> find (oldEnough now (pkg_time data)) (stableVersionsOf (pkg_versions data)) = Some v
         \<longrightarrow>
           (\<exists>w. getStableFallbackVersion pkgName now response =
                  Inr \<lparr>version = ''^'' @ v, warning = Some w, usedFallback = Some True\<rparr>)
         \<and> (\<forall>x \<in> set (stableVersionsOf (pkg_versions data)).
               oldEnough now (pkg_time data) x \<longrightarrow> versionTriple x \<le> versionTriple v))
    \<and> (fetchJson response = Inr data
         \<and> stableVersionsOf (pkg_versions data) \<noteq> []
         \<and> find (oldEnough now (pkg_time data)) (stableVersionsOf (pkg_versions data)) = None
         \<longrightarrow>
           (\<exists>w. getStableFallbackVersion pkgName now response =
                  Inr \<lparr>version = ''^'' @ hd (stableVersionsOf (pkg_versions data)),
                       warning = Some w, usedFallback = Some True\<rparr>)
         \<and> (\<forall>x \<in> set (stableVersionsOf (pkg_versions data)).
               versionTriple x
                 \<le> versionTriple (hd (stableVersionsOf (pkg_versions data))))))"
proof (intro conjI impI ballI)
  show "set (stableVersionsOf (pkg_versions data)) =
     {v \<in> set (pkg_versions data).
        \<exists>a b c. isDigits a \<and> isDigits b \<and> isDigits c \<and> v = a @ ''.'' @ b @ ''.'' @ c}"
    by (simp only: set_stableVersionsOf isStableVersion_iff)
  show "sorted_wrt (\<lambda>v w. versionTriple w \<le> versionTriple v)
          (stableVersionsOf (pkg_versions data))"
    by (rule stableVersionsOf_descending)
  show "oldEnough now (pkg_time data) u \<longleftrightarrow>
       (\<exists>t. pkg_time data u = Some (Some t) \<and> 30 * msPerDay \<le> now - t)"
    by (rule oldEnough_iff)
next
  assume h: "fetchJson response = Inr data
      \<and> find (oldEnough now (pkg_time data)) (stableVersionsOf (pkg_versions data)) = Some v"
  show "\<exists>w. getStableFallbackVersion pkgName now response =
               Inr \<lparr>version = ''^'' @ v, warning = Some w, usedFallback = Some True\<rparr>"
    by (rule stable_fallback_old [OF h [THEN conjunct1] h [THEN conjunct2]])
next
  fix x
  assume h: "fetchJson response = Inr data
      \<and> find (oldEnough now (pkg_time data)) (stableVersionsOf (pkg_versions data)) = Some v"
    and x: "x \<in> set (stableVersionsOf (pkg_versions data))"
    and old: "oldEnough now (pkg_time data) x"
  from h have f: "find (oldEnough now (pkg_time data)) (stableVersionsOf (pkg_versions data))
                    = Some v"
    by (rule conjunct2)
  show "versionTriple x \<le> versionTriple v"
    by (rule find_descending_greatest [OF stableVersionsOf_descending f x old])
next
  assume h: "fetchJson response = Inr data
      \<and> stableVersionsOf (pkg_versions data) \<noteq> []
      \<and> find (oldEnough now (pkg_time data)) (stableVersionsOf (pkg_versions data)) = None"
  show "\<exists>w. getStableFallbackVersion pkgName now response =
               Inr \<lparr>version = ''^'' @ hd (stableVersionsOf (pkg_versions data)),
                    warning = Some w, usedFallback = Some True\<rparr>"
    by (rule stable_fallback_newest
          [OF h [THEN conjunct1] h [THEN conjunct2, THEN conjunct1]
              h [THEN conjunct2, THEN conjunct2]])
next
  fix x
  assume "x \<in> set (stableVersionsOf (pkg_versions data))"
  then show "versionTriple x \<le> versionTriple (hd (stableVersionsOf (pkg_versions data)))"
    by (rule hd_descending_greatest [OF stableVersionsOf_descending])
qed

theorem stable_fallback_tier_witness:
  "(\<exists>w. getStableFallbackVersion ''p'' sampleNow (Response 200 (Some sampleRegistry)) =
          Inr \<lparr>version = ''^1.10.0'', warning = Some w, usedFallback = Some True\<rparr>)
 \<and> (\<exists>w. getStableFallbackVersion ''p'' sampleNow (Response 200 (Some freshRegistry)) =
          Inr \<lparr>version = ''^2.0.0'', warning = Some w, usedFallback = Some True\<rparr>)"
proof -
  have ok: "fetchJson (Response 200 (Some d)) = Inr d" for d :: NpmPackageData
    by (simp add: fetchJson_def)
  have s1: "stableVersionsOf (pkg_versions sampleRegistry) = [''2.0.0'', ''1.10.0'', ''1.9.0'']"
    and s2: "stableVersionsOf (pkg_versions freshRegistry) = [''2.0.0'', ''1.10.0'', ''1.9.0'']"
    by (simp_all add: sampleRegistry_def freshRegistry_def sample_stable)
  have e1: "exactVersions (pkg_versions sampleRegistry)
      \<and> exactAges sampleNow (pkg_time sampleRegistry) (pkg_versions sampleRegistry)"
    and e2: "exactVersions (pkg_versions freshRegistry)
      \<and> exactAges sampleNow (pkg_time freshRegistry) (pkg_versions freshRegistry)"
    by (simp_all add: sample_exact)
  have f1: "fetchJson (Response 200 (Some sampleRegistry)) = Inr sampleRegistry
      \<and> find (oldEnough sampleNow (pkg_time sampleRegistry))
            (stableVersionsOf (pkg_versions sampleRegistry)) = Some ''1.10.0''"
    by (simp only: ok s1 sample_find simp_thms)
  have f2: "fetchJson (Response 200 (Some freshRegistry)) = Inr freshRegistry
      \<and> stableVersionsOf (pkg_versions freshRegistry) \<noteq> []
      \<and> find (oldEnough sampleNow (pkg_time freshRegistry))
            (stableVersionsOf (pkg_versions freshRegistry)) = None"
    by (simp only: ok s2 fresh_find simp_thms list.distinct)
  note tier1 = stable_fallback_tier
         [where data = sampleRegistry and response = "Response 200 (Some sampleRegistry)"
            and now = sampleNow and v = "''1.10.0''" and pkgName = "''p''",
          THEN conjunct2, THEN mp, OF e1]
  note tier2 = stable_fallback_tier
         [where data = freshRegistry and response = "Response 200 (Some freshRegistry)"
            and now = sampleNow and pkgName = "''p''",
          THEN conjunct2, THEN mp, OF e2]
  from tier1 [THEN conjunct2, THEN conjunct2, THEN conjunct1, THEN mp, OF f1, THEN conjunct1]
  have first: "\<exists>w. getStableFallbackVersion ''p'' sampleNow
                         (Response 200 (Some sampleRegistry)) =
          Inr \<lparr>version = ''^1.10.0'', warning = Some w, usedFallback = Some True\<rparr>"
    by simp
  from tier2 [THEN conjunct2, THEN conjunct2, THEN conjunct2, THEN mp, OF f2, THEN conjunct1]
  have second: "\<exists>w. getStableFallbackVersion ''p'' sampleNow
                          (Response 200 (Some freshRegistry)) =
          Inr \<lparr>version = ''^2.0.0'', warning = Some w, usedFallback = Some True\<rparr>"
    by (simp add: s2)
  from first second show ?thesis by (intro conjI)
qed

subsection \<open>The upload step in the workflow text\<close>




















end
